theory Spec2Isabelle
  imports Main "HOL-Library.AList"
begin

section \<open>Text escaping\<close>

text \<open>
  \<^verbatim>\<open>text.replace(new RegExp(pat, "g"), rep)\<close> for a pattern without metacharacters:
  the text is scanned from the left, every match of the literal pattern is replaced and
  the scan goes on behind the match. The patterns of the library are never empty.
\<close>

function replaceAll :: "string \<Rightarrow> string \<Rightarrow> string \<Rightarrow> string" where
  "replaceAll pat rep text =
     (if pat = [] \<or> text = [] then text
      else if take (length pat) text = pat
        then rep @ replaceAll pat rep (drop (length pat) text)
        else hd text # replaceAll pat rep (tl text))"
  by pat_completeness auto
termination
  by (relation "measure (\<lambda>(pat, rep, text). length text)") (auto simp: neq_Nil_conv)

declare replaceAll.simps [simp del]

definition escapeHtml :: "string \<Rightarrow> string" where
  "escapeHtml text = replaceAll ''<'' ''&lt;'' (replaceAll ''&'' ''&amp;'' text)"

definition unescapeHtml :: "string \<Rightarrow> string" where
  "unescapeHtml text =
     replaceAll ''&gt;'' ''>'' (replaceAll ''&lt;'' ''<'' (replaceAll ''&amp;'' ''&'' text))"

text \<open>What \<open>escapeHtml\<close> is meant to do to one character.\<close>

definition escapeChar :: "char \<Rightarrow> string" where
  "escapeChar c =
     (if c = CHR ''&'' then ''&amp;'' else if c = CHR ''<'' then ''&lt;'' else [c])"

section \<open>Results of calls\<close>

text \<open>
  A call of the library either completes or throws. Both outcomes come with the state the
  call leaves behind, because a JavaScript exception does not undo what was done before it.
\<close>

datatype error = TypeError

datatype 'a res = Normal 'a | Throw error

definition then_do ::
  "('s \<Rightarrow> 'a res \<times> 's) \<Rightarrow> ('a \<Rightarrow> 's \<Rightarrow> 'b res \<times> 's) \<Rightarrow> 's \<Rightarrow> 'b res \<times> 's" where
  "then_do f g s = (case f s of (Normal a, s') \<Rightarrow> g a s' | (Throw e, s') \<Rightarrow> (Throw e, s'))"

text \<open>\<open>returns f s a s'\<close>: from the state \<open>s\<close>, \<open>f\<close> completes with \<open>a\<close> in the state \<open>s'\<close>.\<close>

definition returns :: "('s \<Rightarrow> 'a res \<times> 's) \<Rightarrow> 's \<Rightarrow> 'a \<Rightarrow> 's \<Rightarrow> bool" where
  "returns f s a s' \<longleftrightarrow> f s = (Normal a, s')"

definition succeed :: "'a \<Rightarrow> 's \<Rightarrow> 'a res \<times> 's" where
  "succeed a s = (Normal a, s)"

definition raise :: "error \<Rightarrow> 's \<Rightarrow> 'a res \<times> 's" where
  "raise e s = (Throw e, s)"

section \<open>The static lists of \<open>codeInput\<close>\<close>

definition observedAttributes_initial :: "string list" where
  "observedAttributes_initial = [''value'', ''placeholder'', ''language'', ''lang'', ''template'']"

definition textareaSyncAttributes :: "string list" where
  "textareaSyncAttributes =
     [''value'', ''min'', ''max'', ''type'', ''pattern'',
      ''autocomplete'', ''autocorrect'', ''autofocus'', ''cols'', ''dirname'', ''disabled'',
      ''form'', ''maxlength'', ''minlength'', ''name'', ''placeholder'', ''readonly'',
      ''required'', ''rows'', ''spellcheck'', ''wrap'']"

definition textareaSyncEvents :: "string list" where
  "textareaSyncEvents = [''change'', ''selectionchange'', ''invalid'', ''input'']"

section \<open>Templates\<close>

text \<open>
  The arguments of \<open>registerTemplate\<close> are untyped JavaScript values. \<open>JPlugin p\<close> is an
  object that is \<open>instanceof codeInput.Plugin\<close>, \<open>JStrObj\<close> and \<open>JBoolObj\<close> are the boxed
  \<open>String\<close> and \<open>Boolean\<close> objects that the type tests of \<open>registerTemplate\<close> accept, and
  \<open>JObject\<close> is any other object. Functions, plugins and objects carry their identity.
\<close>

datatype jsval =
    JUndefined | JNull
  | JBool bool | JBoolObj bool
  | JStr string | JStrObj string
  | JNum int
  | JFun nat
  | JArr "jsval list"
  | JPlugin nat
  | JObject nat

text \<open>\<open>typeof v == "string" || v instanceof String\<close> and its siblings.\<close>

fun is_string :: "jsval \<Rightarrow> bool" where
  "is_string (JStr _) = True"
| "is_string (JStrObj _) = True"
| "is_string _ = False"

fun is_function :: "jsval \<Rightarrow> bool" where
  "is_function (JFun _) = True"
| "is_function _ = False"

fun is_boolean :: "jsval \<Rightarrow> bool" where
  "is_boolean (JBool _) = True"
| "is_boolean (JBoolObj _) = True"
| "is_boolean _ = False"

fun isArray :: "jsval \<Rightarrow> bool" where
  "isArray (JArr _) = True"
| "isArray _ = False"

fun is_Plugin :: "jsval \<Rightarrow> bool" where
  "is_Plugin (JPlugin _) = True"
| "is_Plugin _ = False"

text \<open>The property key a name is turned into, and the truth value of a flag in a condition.\<close>

fun name_key :: "jsval \<Rightarrow> string" where
  "name_key (JStr s) = s"
| "name_key (JStrObj s) = s"
| "name_key _ = []"

fun truthy :: "jsval \<Rightarrow> bool" where
  "truthy (JBool b) = b"
| "truthy (JBoolObj _) = True"
| "truthy _ = False"

fun function_id :: "jsval \<Rightarrow> nat" where
  "function_id (JFun f) = f"
| "function_id _ = 0"

fun plugin_ids :: "jsval \<Rightarrow> nat list" where
  "plugin_ids (JArr ps) = concat (map (\<lambda>p. case p of JPlugin n \<Rightarrow> [n] | _ \<Rightarrow> []) ps)"
| "plugin_ids _ = []"

text \<open>The Template object as it is handed to \<open>registerTemplate\<close>.\<close>

record template_object =
  obj_highlight :: jsval
  obj_preElementStyled :: jsval
  obj_isCode :: jsval
  obj_includeCodeInputInHighlightFunc :: jsval
  obj_plugins :: jsval

text \<open>
  A Template that has passed the checks of \<open>registerTemplate\<close>: \<open>highlight\<close> is a function
  (its identity), the three flags are kept by their truth value, which is all that the
  conditions reading them see, and \<open>plugins\<close> is the array of Plugin objects in its order.
\<close>

record template =
  highlight :: nat
  preElementStyled :: bool
  isCode :: bool
  includeCodeInputInHighlightFunc :: bool
  plugins :: "nat list"

definition as_template :: "template_object \<Rightarrow> template" where
  "as_template t =
     \<lparr> highlight = function_id (obj_highlight t),
       preElementStyled = truthy (obj_preElementStyled t),
       isCode = truthy (obj_isCode t),
       includeCodeInputInHighlightFunc = truthy (obj_includeCodeInputInHighlightFunc t),
       plugins = plugin_ids (obj_plugins t) \<rparr>"

section \<open>Strings\<close>

text \<open>\<open>toLowerCase\<close>, on the letters of ASCII.\<close>

definition lower_char :: "char \<Rightarrow> char" where
  "lower_char c =
     (case map_of (zip ''ABCDEFGHIJKLMNOPQRSTUVWXYZ'' ''abcdefghijklmnopqrstuvwxyz'') c of
        None \<Rightarrow> c
      | Some d \<Rightarrow> d)"

definition toLowerCase :: "string \<Rightarrow> string" where
  "toLowerCase s = map lower_char s"

section \<open>Elements\<close>

text \<open>
  Event listeners. \<open>UserFunction n src\<close> is a function of the page with identity \<open>n\<close> and
  source text \<open>src\<close>; \<open>UserObject n h\<close> is another object, \<open>h\<close> telling whether it has a
  \<open>handleEvent\<close> method. The other listeners are the closures the library creates itself:
  \<open>AddLater\<close> and \<open>RemoveLater\<close> are the arrow functions of \<open>addEventListener\<close> and
  \<open>removeEventListener\<close> waiting for \<open>code-input_load\<close>, \<open>MouseDown\<close> is the one of
  \<open>setup\<close>. \<open>Bound n l\<close> is the function \<open>boundCallback\<close> made for the listener \<open>l\<close>; every
  call of \<open>addEventListener\<close> makes a new one, with a new identity \<open>n\<close>. \<open>Blur\<close> and \<open>Input\<close>
  are the closures \<open>setup\<close> hands to the textarea directly.
\<close>

datatype listener =
    UserFunction nat string
  | UserObject nat bool
  | AddLater string callback "bool option"
  | RemoveLater string "callback option" "bool option"
  | MouseDown
and callback =
    Bound nat listener
  | Blur
  | Input

text \<open>
  An object used as a property name is converted to a string: a function to its source
  text, a plain object to \<open>[object Object]\<close>.
\<close>

definition mouseDown_source :: string where
  \<open>mouseDown_source =
     ''() => {'' @ [CHR 0x0A] @
     ''                this.classList.add("code-input_mouse-focused");'' @ [CHR 0x0A] @
     ''            }''\<close>

fun property_key :: "listener \<Rightarrow> string" where
  "property_key (UserFunction n src) = src"
| "property_key (UserObject n h) = ''[object Object]''"
| "property_key (AddLater ty cb None) =
     ''() => { this.textareaElement.addEventListener(type, boundCallback); }''"
| "property_key (AddLater ty cb (Some opt)) =
     ''() => { this.textareaElement.addEventListener(type, boundCallback, options); }''"
| "property_key (RemoveLater ty cb None) =
     ''() => { this.textareaElement.removeEventListener(type, boundCallback); }''"
| "property_key (RemoveLater ty cb (Some opt)) =
     ''() => { this.textareaElement.removeEventListener(type, boundCallback, options); }''"
| "property_key MouseDown = mouseDown_source"

text \<open>
  The computed style that \<open>getComputedStyle\<close> reports for an element is decided by the
  layout engine; the model keeps it with the element. \<open>style\<close> is the inline style.
\<close>

record css =
  backgroundColor :: string
  height :: string
  width :: string

record element =
  classList :: "string list"
  attributes :: "(string \<times> string) list"
  innerHTML :: string
  style :: css
  computedStyle :: css
  listeners :: "(string \<times> callback \<times> bool) list"

record textarea = element +
  ta_value :: string

definition new_css :: css where
  "new_css = \<lparr> backgroundColor = [], height = [], width = [] \<rparr>"

definition createElement :: "css \<Rightarrow> element" where
  "createElement computed =
     \<lparr> classList = [], attributes = [], innerHTML = [], style = new_css,
       computedStyle = computed, listeners = [] \<rparr>"

definition createTextarea :: "css \<Rightarrow> textarea" where
  "createTextarea computed =
     \<lparr> classList = [], attributes = [], innerHTML = [], style = new_css,
       computedStyle = computed, listeners = [], ta_value = [] \<rparr>"

text \<open>\<open>classList\<close> is a list of tokens without repetition.\<close>

definition classList_contains :: "string list \<Rightarrow> string \<Rightarrow> bool" where
  "classList_contains cl c = (c \<in> set cl)"

definition classList_add :: "string list \<Rightarrow> string \<Rightarrow> string list" where
  "classList_add cl c = (if c \<in> set cl then cl else cl @ [c])"

definition classList_remove :: "string list \<Rightarrow> string \<Rightarrow> string list" where
  "classList_remove cl c = filter (\<lambda>d. d \<noteq> c) cl"

text \<open>Attributes, in the order of the element's attribute list.\<close>

definition getAttribute :: "(string \<times> string) list \<Rightarrow> string \<Rightarrow> string option" where
  "getAttribute as name = map_of as name"

definition hasAttribute :: "(string \<times> string) list \<Rightarrow> string \<Rightarrow> bool" where
  "hasAttribute as name = (map_of as name \<noteq> None)"

definition setAttribute :: "(string \<times> string) list \<Rightarrow> string \<Rightarrow> string \<Rightarrow> (string \<times> string) list" where
  "setAttribute as name v = AList.update name v as"

definition removeAttribute :: "(string \<times> string) list \<Rightarrow> string \<Rightarrow> (string \<times> string) list" where
  "removeAttribute as name = AList.delete name as"

text \<open>
  The \<open>placeholder\<close> property of a textarea reflects its \<open>placeholder\<close> attribute; assigning
  \<open>null\<close> to it stores the string \<open>null\<close>.
\<close>

definition placeholder :: "'a element_scheme \<Rightarrow> string" where
  "placeholder e = (case getAttribute (attributes e) ''placeholder'' of None \<Rightarrow> [] | Some p \<Rightarrow> p)"

definition set_placeholder :: "string option \<Rightarrow> 'a element_scheme \<Rightarrow> 'a element_scheme" where
  "set_placeholder v e =
     e\<lparr>attributes := setAttribute (attributes e) ''placeholder''
          (case v of None \<Rightarrow> ''null'' | Some p \<Rightarrow> p)\<rparr>"

text \<open>
  \<open>EventTarget.addEventListener\<close> ignores a listener that is already registered for the
  same type and capture flag; \<open>removeEventListener\<close> of \<open>undefined\<close> removes nothing. Of
  the \<open>options\<close> argument the model keeps the capture flag.
\<close>

definition capture_of :: "bool option \<Rightarrow> bool" where
  "capture_of options = (case options of None \<Rightarrow> False | Some c \<Rightarrow> c)"

definition dom_addEventListener ::
  "string \<Rightarrow> callback \<Rightarrow> bool option \<Rightarrow> 'a element_scheme \<Rightarrow> 'a element_scheme" where
  "dom_addEventListener ty cb options e =
     (let entry = (ty, cb, capture_of options)
      in if entry \<in> set (listeners e) then e else e\<lparr>listeners := listeners e @ [entry]\<rparr>)"

definition dom_removeEventListener ::
  "string \<Rightarrow> callback option \<Rightarrow> bool option \<Rightarrow> 'a element_scheme \<Rightarrow> 'a element_scheme" where
  "dom_removeEventListener ty cb options e =
     (case cb of
        None \<Rightarrow> e
      | Some c \<Rightarrow> e\<lparr>listeners := filter (\<lambda>entry. entry \<noteq> (ty, c, capture_of options)) (listeners e)\<rparr>)"

section \<open>The code-input element\<close>

text \<open>
  The fields of \<open>codeInput.CodeInput\<close> next to those of every element. \<open>iid\<close> is the
  identity of the instance, \<open>fallbackTextarea\<close> the child that
  \<open>querySelector("textarea[code-input-fallback]")\<close> finds, \<open>mutationObserver\<close> tells whether
  the observer last created by \<open>connectedCallback\<close> is observing the element, \<open>observers\<close>
  counts the observers that are, and
  \<open>allocated\<close> counts the bound functions created so far, so that each gets an identity
  of its own. \<open>layout_pre\<close> and \<open>layout_code\<close> are the computed styles the layout engine
  gives to the two result elements created by \<open>setup\<close>.
\<close>

record CodeInput = element +
  iid :: nat
  isConnected :: bool
  fallbackTextarea :: "textarea option"
  layout_pre :: css
  layout_code :: css
  template :: "template option"
  textareaElement :: "textarea option"
  preElement :: "element option"
  codeElement :: "element option"
  dialogContainerElement :: "element option"
  boundEventCallbacks :: "string \<rightharpoonup> callback"
  needsHighlight :: bool
  originalAriaDescription :: "string option"
  initialValue :: "string option"
  mutationObserver :: "bool option"
  observers :: nat
  allocated :: nat

text \<open>
  Calls that leave the library: the hooks of the plugins, the highlight function of the
  Template, the listeners of the page and the browser interfaces. They are recorded, with
  the arguments as they are at the moment of the call, in the order in which they happen;
  what the called code does is not part of the model.
\<close>

datatype event =
    HookCall nat string CodeInput "string option list"
  | HighlightCall nat element "CodeInput option"
  | ListenerCall nat string
  | RequestAnimationFrame nat
  | DispatchEvent nat string
  | ResizeObserve nat
  | Observe nat
  | Disconnect nat

type_synonym istate = "CodeInput \<times> event list"

definition modify :: "(CodeInput \<Rightarrow> CodeInput) \<Rightarrow> istate \<Rightarrow> unit res \<times> istate" where
  "modify f = (\<lambda>(x, tr). (Normal (), (f x, tr)))"

definition emit :: "(CodeInput \<Rightarrow> event) \<Rightarrow> istate \<Rightarrow> unit res \<times> istate" where
  "emit ev = (\<lambda>(x, tr). (Normal (), (x, tr @ [ev x])))"

subsection \<open>Plugins\<close>

text \<open>
  \<open>pluginEvt(eventName, args)\<close>. Every element of \<open>template.plugins\<close> is a
  \<open>codeInput.Plugin\<close>, whose class defines the five hooks, so \<open>eventName in plugin\<close> holds
  for each of them. The arguments after the instance are \<open>args\<close>, none when it is
  \<open>undefined\<close>.
\<close>

definition pluginEvt :: "string \<Rightarrow> string option list \<Rightarrow> istate \<Rightarrow> unit res \<times> istate" where
  "pluginEvt eventName args = (\<lambda>(x, tr).
     case template x of
       None \<Rightarrow> (Throw TypeError, (x, tr))
     | Some t \<Rightarrow> (Normal (), (x, tr @ map (\<lambda>p. HookCall p eventName x args) (plugins t))))"

subsection \<open>Highlighting\<close>

definition scheduleHighlight :: "CodeInput \<Rightarrow> CodeInput" where
  "scheduleHighlight x = x\<lparr>needsHighlight := True\<rparr>"

text \<open>The \<open>value\<close> property: its getter and its setter, whose argument is a string,
  \<open>null\<close> or \<open>undefined\<close>.\<close>

datatype textval = Null | Undefined | Text string

definition get_value :: "istate \<Rightarrow> string res \<times> istate" where
  "get_value = (\<lambda>(x, tr).
     case textareaElement x of
       None \<Rightarrow> (Throw TypeError, (x, tr))
     | Some ta \<Rightarrow> (Normal (ta_value ta), (x, tr)))"

definition set_value :: "textval \<Rightarrow> istate \<Rightarrow> unit res \<times> istate" where
  "set_value val = (\<lambda>(x, tr).
     let v = (case val of Null \<Rightarrow> [] | Undefined \<Rightarrow> [] | Text s \<Rightarrow> s)
     in case textareaElement x of
          None \<Rightarrow> (Throw TypeError, (x, tr))
        | Some ta \<Rightarrow>
            (Normal (), (scheduleHighlight (x\<lparr>textareaElement := Some (ta\<lparr>ta_value := v\<rparr>)\<rparr>), tr)))"

definition syncSize :: "istate \<Rightarrow> unit res \<times> istate" where
  "syncSize = (\<lambda>(x, tr).
     case template x of
       None \<Rightarrow> (Throw TypeError, (x, tr))
     | Some t \<Rightarrow>
        (case (if preElementStyled t then preElement x else codeElement x) of
           None \<Rightarrow> (Throw TypeError, (x, tr))
         | Some e \<Rightarrow>
            (let x1 = x\<lparr>style := (style x)\<lparr>backgroundColor := backgroundColor (computedStyle e)\<rparr>\<rparr>
             in case textareaElement x1 of
                  None \<Rightarrow> (Throw TypeError, (x1, tr))
                | Some ta \<Rightarrow>
                    (Normal (),
                     (x1\<lparr>textareaElement := Some (ta\<lparr>style := (style ta)
                           \<lparr>height := height (computedStyle e),
                            width := width (computedStyle e)\<rparr>\<rparr>)\<rparr>, tr)))))"

definition set_code_innerHTML :: "string \<Rightarrow> istate \<Rightarrow> unit res \<times> istate" where
  "set_code_innerHTML html = (\<lambda>(x, tr).
     case codeElement x of
       None \<Rightarrow> (Throw TypeError, (x, tr))
     | Some code \<Rightarrow> (Normal (), (x\<lparr>codeElement := Some (code\<lparr>innerHTML := html\<rparr>)\<rparr>, tr)))"

definition call_highlight :: "istate \<Rightarrow> unit res \<times> istate" where
  "call_highlight = (\<lambda>(x, tr).
     case template x of
       None \<Rightarrow> (Throw TypeError, (x, tr))
     | Some t \<Rightarrow>
        (case codeElement x of
           None \<Rightarrow> (Throw TypeError, (x, tr))
         | Some code \<Rightarrow>
            (Normal (),
             (x, tr @ [HighlightCall (highlight t) code
                         (if includeCodeInputInHighlightFunc t then Some x else None)]))))"

definition update :: "istate \<Rightarrow> unit res \<times> istate" where
  "update =
     then_do get_value (\<lambda>v.
     then_do (set_code_innerHTML (escapeHtml (v @ [CHR 0x0A]))) (\<lambda>_.
     then_do (pluginEvt ''beforeHighlight'' []) (\<lambda>_.
     then_do call_highlight (\<lambda>_.
     then_do syncSize (\<lambda>_.
     pluginEvt ''afterHighlight'' [])))))"

definition animateFrame :: "istate \<Rightarrow> unit res \<times> istate" where
  "animateFrame =
     then_do (\<lambda>(x, tr).
        if needsHighlight x
        then then_do update (\<lambda>_. modify (\<lambda>x. x\<lparr>needsHighlight := False\<rparr>)) (x, tr)
        else (Normal (), (x, tr))) (\<lambda>_.
     emit (\<lambda>x. RequestAnimationFrame (iid x)))"

subsection \<open>Event listeners\<close>

text \<open>
  \<open>addEventListener(type, listener, options)\<close>. While there is no textarea yet, a listener
  for one of the \<open>textareaSyncEvents\<close> is handed over by a second call of this method, for
  the event \<open>code-input_load\<close>.
\<close>

function addEventListener ::
  "string \<Rightarrow> listener \<Rightarrow> bool option \<Rightarrow> istate \<Rightarrow> unit res \<times> istate" where
  "addEventListener ty l options (x, tr) =
     (let boundCallback = Bound (allocated x) l;
          x1 = x\<lparr>allocated := Suc (allocated x),
                 boundEventCallbacks := (boundEventCallbacks x)(property_key l \<mapsto> boundCallback)\<rparr>
      in if ty \<in> set textareaSyncEvents
         then (case textareaElement x1 of
                 None \<Rightarrow>
                   addEventListener ''code-input_load'' (AddLater ty boundCallback options) None
                     (x1, tr)
               | Some ta \<Rightarrow>
                   (Normal (),
                    (x1\<lparr>textareaElement := Some (dom_addEventListener ty boundCallback options ta)\<rparr>,
                     tr)))
         else (Normal (), (dom_addEventListener ty boundCallback options x1, tr)))"
  by pat_completeness auto
termination
  by (relation "measure (\<lambda>(ty, l, options, s). if ty \<in> set textareaSyncEvents then 1 else 0)")
     (auto simp: textareaSyncEvents_def)

declare addEventListener.simps [simp del]

definition removeEventListener ::
  "string \<Rightarrow> listener \<Rightarrow> bool option \<Rightarrow> istate \<Rightarrow> unit res \<times> istate" where
  "removeEventListener ty l options = (\<lambda>(x, tr).
     let boundCallback = boundEventCallbacks x (property_key l)
     in if ty \<in> set textareaSyncEvents
        then (case textareaElement x of
                None \<Rightarrow>
                  addEventListener ''code-input_load'' (RemoveLater ty boundCallback options) None
                    (x, tr)
              | Some ta \<Rightarrow>
                  (Normal (),
                   (x\<lparr>textareaElement := Some (dom_removeEventListener ty boundCallback options ta)\<rparr>,
                    tr)))
        else (Normal (), (dom_removeEventListener ty boundCallback options x, tr)))"

text \<open>
  What a registered callback does when an event of type \<open>ty\<close> reaches it. A bound callback
  calls its listener if that is a function, or its \<open>handleEvent\<close> method if it has one. An
  exception inside a listener ends that listener and does not reach the dispatcher.
\<close>

fun run_listener :: "string \<Rightarrow> listener \<Rightarrow> istate \<Rightarrow> istate" where
  "run_listener ty (UserFunction n src) (x, tr) = (x, tr @ [ListenerCall n ty])"
| "run_listener ty (UserObject n h) (x, tr) = (if h then (x, tr @ [ListenerCall n ty]) else (x, tr))"
| "run_listener ty (AddLater ty' cb options) (x, tr) =
     (case textareaElement x of
        None \<Rightarrow> (x, tr)
      | Some ta \<Rightarrow> (x\<lparr>textareaElement := Some (dom_addEventListener ty' cb options ta)\<rparr>, tr))"
| "run_listener ty (RemoveLater ty' cb options) (x, tr) =
     (case textareaElement x of
        None \<Rightarrow> (x, tr)
      | Some ta \<Rightarrow> (x\<lparr>textareaElement := Some (dom_removeEventListener ty' cb options ta)\<rparr>, tr))"
| "run_listener ty MouseDown (x, tr) =
     (x\<lparr>classList := classList_add (classList x) ''code-input_mouse-focused''\<rparr>, tr)"

fun run_callback :: "string \<Rightarrow> callback \<Rightarrow> istate \<Rightarrow> istate" where
  "run_callback ty (Bound n l) s = run_listener ty l s"
| "run_callback ty Blur (x, tr) =
     (x\<lparr>classList := classList_remove (classList x) ''code-input_mouse-focused''\<rparr>, tr)"
| "run_callback ty Input (x, tr) =
     (case textareaElement x of
        None \<Rightarrow> (x, tr)
      | Some ta \<Rightarrow> snd (set_value (Text (ta_value ta)) (x, tr)))"

text \<open>
  \<open>this.dispatchEvent(new CustomEvent(ty))\<close>: the callbacks registered on the element for
  this type when the dispatch starts are run, the capturing ones first, each group in the
  order of registration.
\<close>

definition dispatchEvent :: "string \<Rightarrow> istate \<Rightarrow> unit res \<times> istate" where
  "dispatchEvent ty = (\<lambda>(x, tr).
     (Normal (),
      foldl (\<lambda>s (ty', cb, capture). if ty' = ty then run_callback ty cb s else s)
        (x, tr @ [DispatchEvent (iid x) ty])
        (filter (\<lambda>(ty', cb, capture). capture) (listeners x) @
         filter (\<lambda>(ty', cb, capture). \<not> capture) (listeners x))))"

subsection \<open>Setup\<close>

text \<open>\<open>a || b\<close> on attribute values: a missing attribute and the empty string are false.\<close>

definition js_or :: "string option \<Rightarrow> string option \<Rightarrow> string option" where
  "js_or a b = (case a of None \<Rightarrow> b | Some s \<Rightarrow> if s = [] then b else Some s)"

definition or_else :: "string option \<Rightarrow> string \<Rightarrow> string" where
  "or_else a d = (case a of None \<Rightarrow> d | Some s \<Rightarrow> if s = [] then d else s)"

text \<open>The attributes of the fallback textarea that the element does not have yet.\<close>

definition sync_fallback_attributes :: "textarea \<Rightarrow> CodeInput \<Rightarrow> CodeInput" where
  "sync_fallback_attributes fb x0 =
     foldl (\<lambda>x (attr, v).
              if hasAttribute (attributes x) attr then x
              else x\<lparr>attributes := setAttribute (attributes x) attr v\<rparr>)
       x0 (attributes fb)"

text \<open>The attributes of the element that are copied to the new textarea.\<close>

definition sync_textarea_attributes :: "CodeInput \<Rightarrow> textarea \<Rightarrow> textarea" where
  "sync_textarea_attributes x ta0 =
     foldl (\<lambda>ta (attribute, v).
              if attribute \<in> set textareaSyncAttributes \<or> take 5 attribute = ''aria-''
              then ta\<lparr>attributes := setAttribute (attributes ta) attribute v\<rparr>
              else ta)
       ta0 (attributes x)"

definition setup_styled_class :: "istate \<Rightarrow> unit res \<times> istate" where
  "setup_styled_class = (\<lambda>(x, tr).
     case template x of
       None \<Rightarrow> (Throw TypeError, (x, tr))
     | Some t \<Rightarrow>
         (Normal (),
          (if preElementStyled t
           then x\<lparr>classList := classList_add (classList x) ''code-input_pre-element-styled''\<rparr>
           else x, tr)))"

text \<open>
  The part of \<open>setup\<close> from the search for the fallback textarea to the insertion of the
  new textarea. It returns \<open>value\<close> and \<open>lang\<close>, which the rest of \<open>setup\<close> uses. The text
  that the new textarea takes from its \<open>innerHTML\<close> while \<open>value\<close> is empty is not
  modelled: \<open>setup\<close> assigns \<open>this.value\<close> before it ends.
\<close>

definition setup_textarea :: "istate \<Rightarrow> (string \<times> string option) res \<times> istate" where
  "setup_textarea = (\<lambda>(x0, tr).
     let x1 = (case fallbackTextarea x0 of
                 None \<Rightarrow> x0
               | Some fb \<Rightarrow> sync_fallback_attributes fb x0);
         v0 = (case fallbackTextarea x0 of
                 None \<Rightarrow> unescapeHtml (innerHTML x0)
               | Some fb \<Rightarrow> ta_value fb);
         v = (if v0 \<noteq> [] then v0 else or_else (getAttribute (attributes x1) ''value'') []);
         lang = js_or (getAttribute (attributes x1) ''language'')
                      (getAttribute (attributes x1) ''lang'');
         ph = or_else (js_or (getAttribute (attributes x1) ''placeholder'') lang) [];
         x2 = x1\<lparr>initialValue := Some v\<rparr>;
         ta1 = set_placeholder (Some ph) (createTextarea new_css);
         ta2 = (if v \<noteq> [] then ta1\<lparr>ta_value := v\<rparr> else ta1);
         ta3 = ta2\<lparr>innerHTML := innerHTML x2\<rparr>;
         ta4 = ta3\<lparr>attributes := setAttribute (attributes ta3) ''spellcheck'' ''false''\<rparr>;
         ta5 = ta4\<lparr>attributes := setAttribute (attributes ta4) ''tabindex''
                      (or_else (getAttribute (attributes x2) ''tabindex'') ''0'')\<rparr>;
         x3 = x2\<lparr>attributes := setAttribute (attributes x2) ''tabindex'' ''-1''\<rparr>;
         x4 = x3\<lparr>originalAriaDescription :=
                  Some (or_else (getAttribute (attributes x3) ''aria-description'')
                          ''Code input field'')\<rparr>
     in case addEventListener ''mousedown'' MouseDown None (x4, tr) of
          (Throw e, s) \<Rightarrow> (Throw e, s)
        | (Normal _, (x5, tr5)) \<Rightarrow>
           (let ta6 = dom_addEventListener ''blur'' Blur None ta5;
                x6 = x5\<lparr>innerHTML := [], fallbackTextarea := None\<rparr>;
                ta7 = sync_textarea_attributes x6 ta6;
                ta8 = dom_addEventListener ''input'' Input None ta7
            in (Normal (v, lang), (x6\<lparr>textareaElement := Some ta8\<rparr>, tr5))))"

text \<open>The part of \<open>setup\<close> that creates the result elements and the dialog container.\<close>

definition setup_result :: "string option \<Rightarrow> istate \<Rightarrow> unit res \<times> istate" where
  \<open>setup_result lang = (\<lambda>(x, tr).
     case template x of
       None \<Rightarrow> (Throw TypeError, (x\<lparr>preElement := Some ((createElement (layout_pre x))
                   \<lparr>attributes := [(''aria-hidden'', ''true''), (''tabindex'', ''-1''),
                                   (''inert'', ''true'')]\<rparr>),
                  codeElement := Some (createElement (layout_code x))\<rparr>, tr))
     | Some t \<Rightarrow>
        (let code = createElement (layout_code x);
             pre = (createElement (layout_pre x))
                   \<lparr>attributes := [(''aria-hidden'', ''true''), (''tabindex'', ''-1''),
                                   (''inert'', ''true'')]\<rparr>;
             code1 = (if isCode t
                      then (case lang of
                              None \<Rightarrow> code
                            | Some l \<Rightarrow>
                                if l \<noteq> []
                                then code\<lparr>classList :=
                                       classList_add (classList code) (''language-'' @ toLowerCase l)\<rparr>
                                else code)
                      else code);
             dialogContainer = (createElement new_css)
                   \<lparr>classList := [''code-input_dialog-container''],
                    innerHTML := ''<div class="code-input_keyboard-navigation-instructions"></div>''\<rparr>
         in (Normal (),
             (x\<lparr>preElement := Some pre, codeElement := Some code1,
                dialogContainerElement := Some dialogContainer\<rparr>, tr))))\<close>

text \<open>The method \<open>setup\<close>.\<close>

definition do_setup :: "istate \<Rightarrow> unit res \<times> istate" where
  "do_setup = (\<lambda>(x, tr).
     if textareaElement x \<noteq> None then (Normal (), (x, tr))
     else
       (then_do (modify (\<lambda>x. x\<lparr>classList := classList_add (classList x) ''code-input_registered''\<rparr>)) (\<lambda>_.
        then_do setup_styled_class (\<lambda>_.
        then_do (pluginEvt ''beforeElementsAdded'' []) (\<lambda>_.
        then_do setup_textarea (\<lambda>(v, lang).
        then_do (setup_result lang) (\<lambda>_.
        then_do (pluginEvt ''afterElementsAdded'' []) (\<lambda>_.
        then_do (dispatchEvent ''code-input_load'') (\<lambda>_.
        then_do (set_value (Text v)) (\<lambda>_.
        then_do animateFrame (\<lambda>_.
        emit (\<lambda>x. ResizeObserve (iid x))))))))))))
       (x, tr))"

subsection \<open>Attribute changes\<close>

definition on_code :: "(element \<Rightarrow> element) \<Rightarrow> istate \<Rightarrow> unit res \<times> istate" where
  "on_code f = (\<lambda>(x, tr).
     case codeElement x of
       None \<Rightarrow> (Throw TypeError, (x, tr))
     | Some code \<Rightarrow> (Normal (), (x\<lparr>codeElement := Some (f code)\<rparr>, tr)))"

text \<open>\<open>code.parentElement\<close> is the \<open>pre\<close> element, to which \<open>setup\<close> appends \<open>code\<close>.\<close>

definition on_parentElement :: "(element \<Rightarrow> element) \<Rightarrow> istate \<Rightarrow> unit res \<times> istate" where
  "on_parentElement f = (\<lambda>(x, tr).
     case preElement x of
       None \<Rightarrow> (Throw TypeError, (x, tr))
     | Some pre \<Rightarrow> (Normal (), (x\<lparr>preElement := Some (f pre)\<rparr>, tr)))"

definition on_textarea :: "(textarea \<Rightarrow> textarea) \<Rightarrow> istate \<Rightarrow> unit res \<times> istate" where
  "on_textarea f = (\<lambda>(x, tr).
     case textareaElement x of
       None \<Rightarrow> (Throw TypeError, (x, tr))
     | Some ta \<Rightarrow> (Normal (), (x\<lparr>textareaElement := Some (f ta)\<rparr>, tr)))"

definition remove_class :: "string \<Rightarrow> element \<Rightarrow> element" where
  "remove_class c e = e\<lparr>classList := classList_remove (classList e) c\<rparr>"

definition add_class :: "string \<Rightarrow> element \<Rightarrow> element" where
  "add_class c e = e\<lparr>classList := classList_add (classList e) c\<rparr>"

text \<open>The case \<open>"template"\<close> of \<open>attributeChangedCallback\<close>.\<close>

definition template_changed ::
  "(string \<rightharpoonup> template) \<Rightarrow> string option \<Rightarrow> string option \<Rightarrow> istate \<Rightarrow> unit res \<times> istate" where
  "template_changed used dflt newValue = (\<lambda>(x, tr).
     let key = (case js_or newValue dflt of None \<Rightarrow> ''undefined'' | Some n \<Rightarrow> n);
         x1 = x\<lparr>template := used key\<rparr>
     in case template x1 of
          None \<Rightarrow> (Throw TypeError, (x1, tr))
        | Some t \<Rightarrow>
            (Normal (),
             (scheduleHighlight
                (x1\<lparr>classList :=
                      (if preElementStyled t
                       then classList_add (classList x1) ''code-input_pre-element-styled''
                       else classList_remove (classList x1) ''code-input_pre-element-styled'')\<rparr>),
              tr)))"

text \<open>The cases \<open>"lang"\<close> and \<open>"language"\<close>.\<close>

definition language_changed :: "string option \<Rightarrow> string option \<Rightarrow> istate \<Rightarrow> unit res \<times> istate" where
  "language_changed oldValue0 newValue0 = (\<lambda>(x, tr).
     case codeElement x of
       None \<Rightarrow> (Throw TypeError, (x, tr))
     | Some code \<Rightarrow>
        (let newValue = map_option toLowerCase newValue0;
             oldValue = map_option toLowerCase oldValue0
         in if (case newValue of
                  None \<Rightarrow> False
                | Some n \<Rightarrow> classList_contains (classList code) (''language-'' @ n))
            then (Normal (), (x, tr))
            else
              (then_do (case oldValue of
                          None \<Rightarrow> succeed ()
                        | Some ov \<Rightarrow>
                            then_do (on_code (remove_class (''language-'' @ ov))) (\<lambda>_.
                            on_parentElement (remove_class (''language-'' @ ov)))) (\<lambda>_.
               then_do (on_code (remove_class ''language-none'')) (\<lambda>_.
               then_do (on_parentElement (remove_class ''language-none'')) (\<lambda>_.
               then_do (case newValue of
                          None \<Rightarrow> succeed ()
                        | Some n \<Rightarrow>
                            if n \<noteq> [] then on_code (add_class (''language-'' @ n))
                            else succeed ()) (\<lambda>_.
               then_do (on_textarea (\<lambda>ta.
                          if oldValue = Some (placeholder ta) then set_placeholder newValue ta
                          else ta)) (\<lambda>_.
               modify scheduleHighlight))))))
              (x, tr)))"

text \<open>
  The \<open>default\<close> case. Nothing in the library defines the property \<open>regexp\<close> of the array
  \<open>codeInput.textareaSyncAttributes\<close>, so it is \<open>undefined\<close> and the call of its \<open>forEach\<close>
  in the \<open>else\<close> branch throws a \<open>TypeError\<close>.
\<close>

definition other_changed :: "string \<Rightarrow> string option \<Rightarrow> istate \<Rightarrow> unit res \<times> istate" where
  "other_changed name newValue =
     (if name \<in> set textareaSyncAttributes \<or> take 5 name = ''aria-''
      then on_textarea (\<lambda>ta.
             case newValue of
               None \<Rightarrow> ta\<lparr>attributes := removeAttribute (attributes ta) name\<rparr>
             | Some v \<Rightarrow> ta\<lparr>attributes := setAttribute (attributes ta) name v\<rparr>)
      else raise TypeError)"

text \<open>
  \<open>attributeChangedCallback(name, oldValue, newValue)\<close>; \<open>used\<close> and \<open>dflt\<close> are
  \<open>codeInput.usedTemplates\<close> and \<open>codeInput.defaultTemplate\<close>, which it reads.
\<close>

definition attributeChangedCallback ::
  "(string \<rightharpoonup> template) \<Rightarrow> string option \<Rightarrow> string \<Rightarrow> string option \<Rightarrow> string option \<Rightarrow>
   istate \<Rightarrow> unit res \<times> istate" where
  "attributeChangedCallback used dflt name oldValue newValue = (\<lambda>(x, tr).
     if isConnected x
     then then_do (pluginEvt ''attributeChanged'' [Some name, oldValue, newValue]) (\<lambda>_.
            if name = ''value''
              then set_value (case newValue of None \<Rightarrow> Null | Some v \<Rightarrow> Text v)
            else if name = ''template''
              then template_changed used dflt newValue
            else if name = ''lang'' \<or> name = ''language''
              then language_changed oldValue newValue
            else other_changed name newValue) (x, tr)
     else (Normal (), (x, tr)))"

definition formResetCallback :: "istate \<Rightarrow> unit res \<times> istate" where
  "formResetCallback = (\<lambda>(x, tr).
     set_value (case initialValue x of None \<Rightarrow> Undefined | Some v \<Rightarrow> Text v) (x, tr))"

section \<open>The registry of templates\<close>

text \<open>
  The state of the page: the mutable properties of \<open>codeInput\<close>, the code-input elements
  by their identity, and the calls made so far. Property names are strings; \<open>undefined\<close>
  used as a property name is the string \<open>undefined\<close>. The names inherited from
  \<open>Object.prototype\<close>, which the operator \<open>in\<close> also finds, are not modelled.
\<close>

record world =
  observedAttributes :: "string list"
  usedTemplates :: "string \<rightharpoonup> template"
  defaultTemplate :: "string option"
  templateNotYetRegisteredQueue :: "string \<rightharpoonup> nat list"
  instances :: "nat \<Rightarrow> CodeInput"
  trace :: "event list"

definition property_name :: "string option \<Rightarrow> string" where
  "property_name n = (case n of None \<Rightarrow> ''undefined'' | Some s \<Rightarrow> s)"

definition queued :: "world \<Rightarrow> string \<Rightarrow> nat list" where
  "queued w key = (case templateNotYetRegisteredQueue w key of None \<Rightarrow> [] | Some q \<Rightarrow> q)"

definition on_instance :: "nat \<Rightarrow> (istate \<Rightarrow> 'a res \<times> istate) \<Rightarrow> world \<Rightarrow> 'a res \<times> world" where
  "on_instance i f w =
     (case f (instances w i, trace w) of
        (r, (x, tr)) \<Rightarrow> (r, w\<lparr>instances := (instances w)(i := x), trace := tr\<rparr>))"

text \<open>The constructor of \<open>codeInput.Plugin\<close>.\<close>

definition Plugin_constructor :: "string list \<Rightarrow> world \<Rightarrow> world" where
  "Plugin_constructor attrs w = w\<lparr>observedAttributes := observedAttributes w @ attrs\<rparr>"

definition getTemplate :: "nat \<Rightarrow> world \<Rightarrow> template option \<times> world" where
  "getTemplate i w =
     (let templateName =
            (case getAttribute (attributes (instances w i)) ''template'' of
               None \<Rightarrow> defaultTemplate w
             | Some n \<Rightarrow> Some n);
          key = property_name templateName
      in case usedTemplates w key of
           Some t \<Rightarrow> (Some t, w)
         | None \<Rightarrow>
            (None,
             w\<lparr>templateNotYetRegisteredQueue :=
                 (templateNotYetRegisteredQueue w)(key \<mapsto> queued w key @ [i])\<rparr>))"

definition connectedCallback :: "nat \<Rightarrow> world \<Rightarrow> unit res \<times> world" where
  "connectedCallback i w =
     (case getTemplate i w of
        (t, w1) \<Rightarrow>
          then_do (on_instance i (\<lambda>(x, tr).
                     if t \<noteq> None
                     then (then_do (modify (\<lambda>x. x\<lparr>classList :=
                                       classList_add (classList x) ''code-input_registered''\<rparr>)) (\<lambda>_.
                           then_do do_setup (\<lambda>_.
                           modify (\<lambda>x. x\<lparr>classList :=
                                       classList_add (classList x) ''code-input_loaded''\<rparr>))))
                          (x\<lparr>template := t\<rparr>, tr)
                     else (Normal (), (x\<lparr>template := t\<rparr>, tr)))) (\<lambda>_.
          on_instance i (\<lambda>(x, tr).
            (Normal (), (x\<lparr>mutationObserver := Some True, observers := Suc (observers x)\<rparr>,
                         tr @ [Observe i]))))
          w1)"

definition disconnectedCallback :: "istate \<Rightarrow> unit res \<times> istate" where
  "disconnectedCallback = (\<lambda>(x, tr).
     case mutationObserver x of
       None \<Rightarrow> (Throw TypeError, (x, tr))
     | Some active \<Rightarrow>
         (Normal (),
          (x\<lparr>mutationObserver := Some False,
             observers := (if active then observers x - 1 else observers x)\<rparr>,
           tr @ [Disconnect (iid x)])))"

text \<open>
  The two loops of \<open>registerTemplate\<close> over a bucket of the queue. \<open>for (let i in q)\<close>
  visits the indices the array has when the loop starts.
\<close>

fun attach_queued :: "template \<Rightarrow> nat list \<Rightarrow> world \<Rightarrow> unit res \<times> world" where
  "attach_queued t [] w = (Normal (), w)"
| "attach_queued t (elem # rest) w =
     then_do (connectedCallback elem) (\<lambda>_. attach_queued t rest)
       (w\<lparr>instances := (instances w)(elem := (instances w elem)\<lparr>template := Some t\<rparr>)\<rparr>)"

definition plugins_valid :: "jsval \<Rightarrow> bool" where
  "plugins_valid ps = (case ps of JArr elems \<Rightarrow> list_all is_Plugin elems | _ \<Rightarrow> False)"

definition registerTemplate :: "jsval \<Rightarrow> template_object \<Rightarrow> world \<Rightarrow> unit res \<times> world" where
  "registerTemplate templateName templ w =
     (if \<not> is_string templateName then (Throw TypeError, w)
      else if \<not> is_function (obj_highlight templ) then (Throw TypeError, w)
      else if \<not> is_boolean (obj_includeCodeInputInHighlightFunc templ) then (Throw TypeError, w)
      else if \<not> is_boolean (obj_preElementStyled templ) then (Throw TypeError, w)
      else if \<not> is_boolean (obj_isCode templ) then (Throw TypeError, w)
      else if \<not> isArray (obj_plugins templ) then (Throw TypeError, w)
      else if \<not> plugins_valid (obj_plugins templ) then (Throw TypeError, w)
      else
        (let name = name_key templateName;
             t = as_template templ;
             w1 = w\<lparr>usedTemplates := (usedTemplates w)(name \<mapsto> t)\<rparr>
         in then_do (attach_queued t (queued w1 name)) (\<lambda>_ w2.
              if defaultTemplate w2 = None
              then (let w3 = w2\<lparr>defaultTemplate := Some name\<rparr>
                    in attach_queued t (queued w3 ''undefined'') w3)
              else (Normal (), w2))
            w1))"

text \<open>
  \<open>mutationObserverCallback(mutationList, observer)\<close>: the first change of a watched
  attribute in the list is passed on, and the method returns.
\<close>

record mutation =
  mutation_type :: string
  attributeName :: string
  oldValue :: "string option"

fun mutationObserverCallback :: "nat \<Rightarrow> mutation list \<Rightarrow> world \<Rightarrow> unit res \<times> world" where
  "mutationObserverCallback i [] w = (Normal (), w)"
| "mutationObserverCallback i (m # ms) w =
     (if mutation_type m \<noteq> ''attributes'' then mutationObserverCallback i ms w
      else if attributeName m \<in> set (observedAttributes w) \<or> take 5 (attributeName m) = ''aria-''
        then on_instance i
               (attributeChangedCallback (usedTemplates w) (defaultTemplate w) (attributeName m)
                  (oldValue m) (getAttribute (attributes (instances w i)) (attributeName m))) w
        else mutationObserverCallback i ms w)"

section \<open>Initial states\<close>

text \<open>A code-input element as its constructor and field initialisers leave it.\<close>

definition new_CodeInput :: "nat \<Rightarrow> CodeInput" where
  "new_CodeInput n =
     \<lparr> classList = [], attributes = [], innerHTML = [], style = new_css,
       computedStyle = new_css, listeners = [],
       iid = n, isConnected = False, fallbackTextarea = None,
       layout_pre = new_css, layout_code = new_css,
       template = None, textareaElement = None, preElement = None, codeElement = None,
       dialogContainerElement = None, boundEventCallbacks = Map.empty,
       needsHighlight = False, originalAriaDescription = None, initialValue = None,
       mutationObserver = None, observers = 0, allocated = 0 \<rparr>"

text \<open>The page after the script has been loaded.\<close>

definition codeInput_initial :: world where
  "codeInput_initial =
     \<lparr> observedAttributes = observedAttributes_initial,
       usedTemplates = Map.empty,
       defaultTemplate = None,
       templateNotYetRegisteredQueue = Map.empty,
       instances = new_CodeInput,
       trace = [] \<rparr>"

section \<open>Frames\<close>




text \<open>A highlight pass calls the highlight function of the Template once.\<close>

fun is_HighlightCall :: "event \<Rightarrow> bool" where
  "is_HighlightCall (HighlightCall f code arg) = True"
| "is_HighlightCall _ = False"

definition highlight_passes :: "event list \<Rightarrow> nat" where
  "highlight_passes evs = length (filter is_HighlightCall evs)"

text \<open>An element is set up when it has its Template and the elements \<open>setup\<close> creates.\<close>

definition set_up :: "CodeInput \<Rightarrow> bool" where
  "set_up x \<longleftrightarrow>
     template x \<noteq> None \<and> textareaElement x \<noteq> None \<and> preElement x \<noteq> None \<and> codeElement x \<noteq> None"

section \<open>Observations on the registry\<close>

text \<open>
  \<open>connectedCallback\<close> ends with the start of a mutation observer on its element, so the
  elements whose attach procedure has been run are, in order, those of the \<open>Observe\<close>
  calls.
\<close>

fun attach_of :: "event \<Rightarrow> nat list" where
  "attach_of (Observe i) = [i]"
| "attach_of _ = []"

definition attached :: "event list \<Rightarrow> nat list" where
  "attached evs = concat (map attach_of evs)"

text \<open>
  The template name an element asks for: the one of its \<open>template\<close> attribute, or none.
  An element without the attribute keeps asking for none when it has no fallback textarea
  that would hand the attribute over during \<open>setup\<close>.
\<close>

definition asks :: "CodeInput \<Rightarrow> string \<Rightarrow> bool" where
  "asks x n \<longleftrightarrow> getAttribute (attributes x) ''template'' = Some n"

definition asks_default :: "CodeInput \<Rightarrow> bool" where
  "asks_default x \<longleftrightarrow>
     getAttribute (attributes x) ''template'' = None \<and>
     (case fallbackTextarea x of
        None \<Rightarrow> True
      | Some fb \<Rightarrow> getAttribute (attributes fb) ''template'' = None)"

text \<open>The \<open>template\<close> attribute an element has after \<open>setup\<close>.\<close>

definition template_attribute_after :: "CodeInput \<Rightarrow> string option" where
  "template_attribute_after x =
     (case getAttribute (attributes x) ''template'' of
        Some n \<Rightarrow> Some n
      | None \<Rightarrow>
          (case fallbackTextarea x of
             None \<Rightarrow> None
           | Some fb \<Rightarrow> getAttribute (attributes fb) ''template''))"

text \<open>The property name under which \<open>getTemplate\<close> looks for the template of an element.\<close>

definition requested_key :: "world \<Rightarrow> nat \<Rightarrow> string" where
  "requested_key w i =
     property_name
       (case getAttribute (attributes (instances w i)) ''template'' of
          None \<Rightarrow> defaultTemplate w
        | Some n \<Rightarrow> Some n)"

text \<open>
  An element is settled with a Template when it has been given it and is set up. Its
  request resolves to a Template when the name it asks for, or the default name if it asks
  for none, is registered with that Template.
\<close>

definition settled :: "template \<Rightarrow> CodeInput \<Rightarrow> bool" where
  "settled t x \<longleftrightarrow> template x = Some t \<and> textareaElement x \<noteq> None"

definition resolves_to :: "world \<Rightarrow> nat \<Rightarrow> template \<Rightarrow> bool" where
  "resolves_to w j t \<longleftrightarrow>
     (\<exists>n. asks (instances w j) n \<and> usedTemplates w n = Some t) \<or>
     (asks_default (instances w j) \<and>
      (\<exists>d. defaultTemplate w = Some d \<and> usedTemplates w d = Some t))"

text \<open>
  The effect of running the attach procedure for the elements \<open>q\<close>, one after the other,
  on a page \<open>w\<close>: the registry stays, elements outside \<open>q\<close> stay, the attach procedures run
  in the order of \<open>q\<close>, every bucket of the queue keeps its content and may get elements of
  \<open>q\<close> appended, every element keeps asking for what it asked for, and every element of
  \<open>q\<close> whose request resolves to a Template is settled with it, as are the elements that
  were settled before.
\<close>

definition attach_effect :: "nat list \<Rightarrow> world \<Rightarrow> world \<Rightarrow> bool" where
  "attach_effect q w w' \<longleftrightarrow>
     usedTemplates w' = usedTemplates w \<and> defaultTemplate w' = defaultTemplate w \<and>
     observedAttributes w' = observedAttributes w \<and>
     (\<forall>j. j \<notin> set q \<longrightarrow> instances w' j = instances w j) \<and>
     attached (trace w') = attached (trace w) @ q \<and>
     (\<forall>k. \<exists>extra. queued w' k = queued w k @ extra \<and> set extra \<subseteq> set q) \<and>
     (\<forall>j n. asks (instances w j) n \<longrightarrow> asks (instances w' j) n) \<and>
     (\<forall>j. asks_default (instances w j) \<longrightarrow> asks_default (instances w' j)) \<and>
     (\<forall>j t. resolves_to w j t \<and> (j \<in> set q \<or> settled t (instances w j))
            \<longrightarrow> settled t (instances w' j))"

section \<open>Examples\<close>

text \<open>
  A connected element as \<open>setup\<close> leaves it when its Template has two plugins, its
  attribute \<open>lang\<close> is \<open>Python\<close> and its content is \<open>a&amp;b&lt;c\<close>; the highlighter has
  put the language class on the \<open>pre\<close> element as well.
\<close>

definition demo_template :: template where
  "demo_template =
     \<lparr> highlight = 7, preElementStyled = True, isCode = True,
       includeCodeInputInHighlightFunc = True, plugins = [1, 2] \<rparr>"

definition demo_textarea :: textarea where
  "demo_textarea =
     (createTextarea new_css)
       \<lparr>attributes := [(''placeholder'', ''python''), (''spellcheck'', ''false''),
                       (''tabindex'', ''0'')],
        listeners := [(''blur'', Blur, False), (''input'', Input, False)],
        ta_value := ''a&b<c''\<rparr>"

definition demo_code :: element where
  "demo_code = (createElement new_css)\<lparr>classList := [''language-python'']\<rparr>"

definition demo_pre :: element where
  "demo_pre =
     (createElement new_css)
       \<lparr>classList := [''language-python''],
        attributes := [(''aria-hidden'', ''true''), (''tabindex'', ''-1''), (''inert'', ''true'')]\<rparr>"

definition demo_element :: CodeInput where
  "demo_element =
     (new_CodeInput 0)
       \<lparr>classList := [''code-input_registered'', ''code-input_pre-element-styled'',
                      ''code-input_loaded''],
        attributes := [(''lang'', ''Python''), (''tabindex'', ''-1'')],
        isConnected := True,
        template := Some demo_template,
        textareaElement := Some demo_textarea,
        preElement := Some demo_pre,
        codeElement := Some demo_code,
        initialValue := Some ''a&b<c'',
        mutationObserver := Some True, observers := 1\<rparr>"

text \<open>
  A page with one element that asks for the template \<open>a\<close>, a Template without plugins,
  and the page after the element has been connected and the Template registered under
  that name.
\<close>

definition plain_template :: template_object where
  "plain_template =
     \<lparr> obj_highlight = JFun 7, obj_preElementStyled = JBool True, obj_isCode = JBool True,
       obj_includeCodeInputInHighlightFunc = JBool False, obj_plugins = JArr [] \<rparr>"

definition page_loaded :: world where
  "page_loaded =
     codeInput_initial
       \<lparr>instances := new_CodeInput
          (0 := (new_CodeInput 0)\<lparr>attributes := [(''template'', ''a'')], isConnected := True\<rparr>)\<rparr>"

definition page_connected :: world where
  "page_connected = snd (connectedCallback 0 page_loaded)"

definition page_registered :: world where
  "page_registered = snd (registerTemplate (JStr ''a'') plain_template page_connected)"

text \<open>
  The page on which the element, still waiting for the template \<open>a\<close>, is given the
  attribute \<open>template="b"\<close> by a script and is then moved in the document, so that its
  attach procedure runs again.
\<close>

definition page_moved :: world where
  "page_moved =
     snd (connectedCallback 0
       (page_connected\<lparr>instances := (instances page_connected)
          (0 := (instances page_connected 0)\<lparr>attributes := [(''template'', ''b'')]\<rparr>)\<rparr>))"

section \<open>Properties of the escaping functions\<close>

lemma replaceAll_Nil: "replaceAll pat rep [] = []"
  by (simp add: replaceAll.simps)

lemma replaceAll_Cons:
  "pat \<noteq> [] \<Longrightarrow> replaceAll pat rep (c # cs) =
     (if take (length pat) (c # cs) = pat
      then rep @ replaceAll pat rep (drop (length pat) (c # cs))
      else c # replaceAll pat rep cs)"
  by (subst replaceAll.simps) simp

lemma replaceAll_single:
  "replaceAll [a] rep s = concat (map (\<lambda>c. if c = a then rep else [c]) s)"
  by (induction s) (auto simp: replaceAll_Nil replaceAll_Cons)

lemma escapeHtml_concat: "escapeHtml s = concat (map escapeChar s)"
  unfolding escapeHtml_def replaceAll_single
  by (induction s) (auto simp: escapeChar_def)

lemma take_eq_ConsD: "take n s = c # r \<Longrightarrow> \<exists>t. s = c # t"
  by (cases s; cases n) auto

lemma unescape_amp:
  "set v \<subseteq> {CHR ''&'', CHR ''<'', CHR ''>''} \<Longrightarrow>
   replaceAll ''&amp;'' ''&'' (concat (map escapeChar v)) = replaceAll ''<'' ''&lt;'' v"
  by (induction v) (auto simp: replaceAll_Nil replaceAll_Cons escapeChar_def)

lemma unescape_lt:
  "set v \<subseteq> {CHR ''&'', CHR ''<'', CHR ''>''} \<Longrightarrow>
   replaceAll ''&lt;'' ''<'' (replaceAll ''<'' ''&lt;'' v) = v"
proof (induction v)
  case Nil
  then show ?case by (simp add: replaceAll_Nil)
next
  case (Cons c v)
  have "\<not> (\<exists>t. replaceAll ''<'' ''&lt;'' v = CHR ''l'' # t)"
    using Cons.prems by (cases v) (auto simp: replaceAll_Nil replaceAll_Cons)
  then have "take 3 (replaceAll ''<'' ''&lt;'' v) \<noteq> ''lt;''"
    using take_eq_ConsD by metis
  with Cons show ?case
    by (auto simp: replaceAll_Cons numeral_3_eq_3)
qed

lemma unescape_gt:
  "set v \<subseteq> {CHR ''&'', CHR ''<'', CHR ''>''} \<Longrightarrow> replaceAll ''&gt;'' ''>'' v = v"
  by (induction v) (auto simp: replaceAll_Nil replaceAll_Cons dest: take_eq_ConsD)

text \<open>
  C4. For every text made of the characters \<open>&\<close>, \<open><\<close> and \<open>>\<close> only, unescaping the
  escaped text gives the text back; escaping encodes \<open>&\<close> as \<open>&amp;\<close> and \<open><\<close> as
  \<open>&lt;\<close> and leaves every other character, \<open>>\<close> included, as it is.
\<close>

theorem unescapeHtml_escapeHtml:
  assumes "set v \<subseteq> {CHR ''&'', CHR ''<'', CHR ''>''}"
  shows "unescapeHtml (escapeHtml v) = v \<and> escapeHtml v = concat (map escapeChar v)"
  using assms
  by (simp add: unescapeHtml_def escapeHtml_concat unescape_amp unescape_lt unescape_gt)

theorem unescapeHtml_escapeHtml_witness:
  "set ''<&>&&'' \<subseteq> {CHR ''&'', CHR ''<'', CHR ''>''} \<and>
   unescapeHtml (escapeHtml ''<&>&&'') = ''<&>&&'' \<and>
   escapeHtml ''<&>&&'' = ''&lt;&amp;>&amp;&amp;''"
proof -
  have h: "set ''<&>&&'' \<subseteq> {CHR ''&'', CHR ''<'', CHR ''>''}"
    by simp
  note r = unescapeHtml_escapeHtml [OF h]
  from r have "escapeHtml ''<&>&&'' = ''&lt;&amp;>&amp;&amp;''"
    by (simp add: escapeChar_def)
  with h r show ?thesis
    by blast
qed


section \<open>The value property\<close>

lemma set_value_result:
  assumes "textareaElement x = Some ta"
  shows "set_value val (x, tr) =
           (Normal (),
            (x\<lparr>textareaElement :=
                 Some (ta\<lparr>ta_value := (case val of Null \<Rightarrow> [] | Undefined \<Rightarrow> [] | Text s \<Rightarrow> s)\<rparr>),
               needsHighlight := True\<rparr>, tr))"
  using assms by (simp add: set_value_def scheduleHighlight_def)

text \<open>
  C10. On an element that has its textarea, assigning \<open>null\<close> or \<open>undefined\<close> to \<open>value\<close>
  stores the empty string, which the getter then returns, and every assignment, whatever
  the value and whatever was stored before, completes and leaves \<open>needsHighlight\<close> set.
\<close>

theorem set_value_schedules:
  assumes "textareaElement x = Some ta"
  shows "\<exists>x'. set_value val (x, tr) = (Normal (), (x', tr)) \<and> needsHighlight x' \<and>
           get_value (x', tr) =
             (Normal (case val of Null \<Rightarrow> [] | Undefined \<Rightarrow> [] | Text s \<Rightarrow> s), (x', tr))"
  using assms by (simp add: set_value_result get_value_def)

theorem set_value_schedules_witness:
  "\<exists>x'. set_value Null ((new_CodeInput 0)\<lparr>textareaElement :=
            Some ((createTextarea new_css)\<lparr>ta_value := ''abc''\<rparr>)\<rparr>, []) = (Normal (), (x', [])) \<and>
         needsHighlight x' \<and> get_value (x', []) = (Normal [], (x', []))"
  using set_value_schedules
    [of "(new_CodeInput 0)\<lparr>textareaElement := Some ((createTextarea new_css)\<lparr>ta_value := ''abc''\<rparr>)\<rparr>"
        "(createTextarea new_css)\<lparr>ta_value := ''abc''\<rparr>" Null "[]"]
  by simp

section \<open>The highlight pass\<close>


lemma syncSize_result:
  assumes "template x = Some t" and "textareaElement x = Some ta"
    and "(if preElementStyled t then preElement x else codeElement x) = Some e"
  shows "syncSize (x, tr) =
           (Normal (),
            (x\<lparr>style := (style x)\<lparr>backgroundColor := backgroundColor (computedStyle e)\<rparr>,
               textareaElement := Some (ta\<lparr>style := (style ta)
                 \<lparr>height := height (computedStyle e), width := width (computedStyle e)\<rparr>\<rparr>)\<rparr>, tr))"
  using assms by (simp add: syncSize_def)

lemma update_result:
  assumes "template x = Some t" and "textareaElement x = Some ta"
    and "codeElement x = Some code" and "preElement x = Some pre"
  shows "let code1 = code\<lparr>innerHTML := escapeHtml (ta_value ta @ [CHR 0x0A])\<rparr>;
             x1 = x\<lparr>codeElement := Some code1\<rparr>;
             e = (if preElementStyled t then pre else code1);
             x2 = x1\<lparr>style := (style x)\<lparr>backgroundColor := backgroundColor (computedStyle e)\<rparr>,
                     textareaElement := Some (ta\<lparr>style := (style ta)
                       \<lparr>height := height (computedStyle e), width := width (computedStyle e)\<rparr>\<rparr>)\<rparr>
         in update (x, tr) =
              (Normal (),
               (x2, tr @ map (\<lambda>p. HookCall p ''beforeHighlight'' x1 []) (plugins t)
                       @ [HighlightCall (highlight t) code1
                            (if includeCodeInputInHighlightFunc t then Some x1 else None)]
                       @ map (\<lambda>p. HookCall p ''afterHighlight'' x2 []) (plugins t)))"
  using assms
  by (simp add: update_def then_do_def get_value_def set_code_innerHTML_def pluginEvt_def
      call_highlight_def syncSize_def Let_def)

text \<open>
  C8. A highlight pass on an element that is set up reads the value, puts the escaped
  value with one newline behind it into the \<open>code\<close> element, calls the \<open>beforeHighlight\<close>
  hook of every plugin in the order of the Template, calls the highlight function with
  the \<open>code\<close> element, and with the instance exactly if
  \<open>includeCodeInputInHighlightFunc\<close> is set, synchronises the sizes, and calls the
  \<open>afterHighlight\<close> hook of every plugin, in this order.
\<close>

theorem update_order:
  assumes "template x = Some t" and "textareaElement x = Some ta"
    and "codeElement x = Some code" and "preElement x = Some pre"
  shows "let code1 = code\<lparr>innerHTML := escapeHtml (ta_value ta @ [CHR 0x0A])\<rparr>;
             x1 = x\<lparr>codeElement := Some code1\<rparr>;
             e = (if preElementStyled t then pre else code1);
             x2 = x1\<lparr>style := (style x)\<lparr>backgroundColor := backgroundColor (computedStyle e)\<rparr>,
                     textareaElement := Some (ta\<lparr>style := (style ta)
                       \<lparr>height := height (computedStyle e), width := width (computedStyle e)\<rparr>\<rparr>)\<rparr>
         in update (x, tr) =
              (Normal (),
               (x2, tr @ map (\<lambda>p. HookCall p ''beforeHighlight'' x1 []) (plugins t)
                       @ [HighlightCall (highlight t) code1
                            (if includeCodeInputInHighlightFunc t then Some x1 else None)]
                       @ map (\<lambda>p. HookCall p ''afterHighlight'' x2 []) (plugins t)))"
  using update_result [OF assms, of tr] .

section \<open>Frames\<close>

lemma highlight_passes_append [simp]:
  "highlight_passes (xs @ ys) = highlight_passes xs + highlight_passes ys"
  by (simp add: highlight_passes_def)

lemma highlight_passes_hooks [simp]:
  "highlight_passes (map (\<lambda>p. HookCall p n x args) ps) = 0"
  by (induction ps) (simp_all add: highlight_passes_def)

lemma highlight_passes_simps [simp]:
  "highlight_passes [] = 0"
  "highlight_passes (HighlightCall f c a # evs) = Suc (highlight_passes evs)"
  "highlight_passes (HookCall p n x args # evs) = highlight_passes evs"
  "highlight_passes (RequestAnimationFrame i # evs) = highlight_passes evs"
  by (simp_all add: highlight_passes_def)









theorem update_order_witness:
  "template demo_element = Some demo_template \<and> textareaElement demo_element = Some demo_textarea \<and>
   codeElement demo_element = Some demo_code \<and> preElement demo_element = Some demo_pre \<and>
   (let code1 = demo_code\<lparr>innerHTML := ''a&amp;b&lt;c'' @ [CHR 0x0A]\<rparr>;
        x1 = demo_element\<lparr>codeElement := Some code1\<rparr>;
        x2 = x1\<lparr>style := new_css, textareaElement := Some (demo_textarea\<lparr>style := new_css\<rparr>)\<rparr>
    in update (demo_element, []) =
         (Normal (),
          (x2, [HookCall 1 ''beforeHighlight'' x1 [], HookCall 2 ''beforeHighlight'' x1 [],
                HighlightCall 7 code1 (Some x1),
                HookCall 1 ''afterHighlight'' x2 [], HookCall 2 ''afterHighlight'' x2 []])))"
proof -
  have h: "template demo_element = Some demo_template"
    "textareaElement demo_element = Some demo_textarea"
    "codeElement demo_element = Some demo_code" "preElement demo_element = Some demo_pre"
    by (simp_all add: demo_element_def)
  have e: "escapeHtml (ta_value demo_textarea @ [CHR 0x0A]) = ''a&amp;b&lt;c'' @ [CHR 0x0A]"
    by (simp add: escapeHtml_concat escapeChar_def demo_textarea_def)
  have c: "computedStyle demo_pre = new_css" "style demo_element = new_css"
    "style demo_textarea = new_css"
    by (simp_all add: demo_pre_def demo_element_def demo_textarea_def createElement_def
        createTextarea_def new_CodeInput_def)
  have n: "(new_css :: css)\<lparr>backgroundColor := backgroundColor new_css\<rparr> = new_css"
    "(new_css :: css)\<lparr>height := height new_css, width := width new_css\<rparr> = new_css"
    by simp_all
  show ?thesis
    using update_order [OF h, of "[]"] h
    by (simp add: Let_def e c n demo_template_def)
qed

section \<open>Attribute changes\<close>







text \<open>
  C6. The attribute \<open>data-limit\<close> is watched because a plugin declared it. When it
  changes on a connected element that is set up, \<open>mutationObserverCallback\<close> passes the
  change on, the \<open>attributeChanged\<close> hook of every plugin is called with the name, the
  old and the new value, and then the call throws a \<open>TypeError\<close>; the element itself is
  left as it was.
\<close>

theorem watched_attribute_change_throws:
  "''data-limit'' \<notin> set observedAttributes_initial \<and>
   (let w = (Plugin_constructor [''data-limit''] codeInput_initial)
              \<lparr>instances := new_CodeInput
                 (0 := demo_element\<lparr>attributes := [(''lang'', ''Python''), (''tabindex'', ''-1''),
                                                    (''data-limit'', ''2'')]\<rparr>)\<rparr>;
        x = instances w 0;
        r = mutationObserverCallback 0
              [\<lparr>mutation_type = ''attributes'', attributeName = ''data-limit'',
                oldValue = Some ''1''\<rparr>] w
    in ''data-limit'' \<in> set (observedAttributes w) \<and>
       fst r = Throw TypeError \<and>
       instances (snd r) 0 = x \<and>
       trace (snd r) =
         [HookCall 1 ''attributeChanged'' x [Some ''data-limit'', Some ''1'', Some ''2''],
          HookCall 2 ''attributeChanged'' x [Some ''data-limit'', Some ''1'', Some ''2'']])"
  by (simp add: Let_def Plugin_constructor_def codeInput_initial_def observedAttributes_initial_def
      on_instance_def attributeChangedCallback_def then_do_def pluginEvt_def other_changed_def
      raise_def textareaSyncAttributes_def getAttribute_def demo_element_def demo_template_def)

section \<open>Event listeners\<close>

text \<open>
  C9. Two different listener objects are registered for \<open>input\<close> on an element that is set
  up, and the first is removed again. Both objects have the property name
  \<open>[object Object]\<close>, so the second registration replaces the entry of the first in
  \<open>boundEventCallbacks\<close>, and the removal of the first listener detaches the bound callback
  of the second: the textarea keeps the bound callback of listener 1, which was to be
  removed, and has lost that of listener 2.
\<close>

theorem removeEventListener_detaches_other_listener:
  "(let s1 = snd (addEventListener ''input'' (UserObject 1 True) None (demo_element, []));
        s2 = snd (addEventListener ''input'' (UserObject 2 True) None s1);
        s3 = snd (removeEventListener ''input'' (UserObject 1 True) None s2)
    in map_option listeners (textareaElement (fst s2)) =
         Some [(''blur'', Blur, False), (''input'', Input, False),
               (''input'', Bound 0 (UserObject 1 True), False),
               (''input'', Bound 1 (UserObject 2 True), False)] \<and>
       map_option listeners (textareaElement (fst s3)) =
         Some [(''blur'', Blur, False), (''input'', Input, False),
               (''input'', Bound 0 (UserObject 1 True), False)])"
  by (simp add: Let_def addEventListener.simps removeEventListener_def textareaSyncEvents_def
      dom_addEventListener_def dom_removeEventListener_def capture_of_def
      demo_element_def demo_textarea_def new_CodeInput_def createTextarea_def)

section \<open>Registration of templates\<close>

text \<open>
  C7. \<open>registerTemplate\<close> throws a \<open>TypeError\<close> when the name is not a string, when
  \<open>highlight\<close> is not a function, when one of the three flags is not a boolean, when
  \<open>plugins\<close> is not an array, or when one of its elements is not a Plugin; and then the
  page, with its templates, its default name and its queue, is as it was before the call.
\<close>

theorem registerTemplate_rejects:
  assumes "\<not> is_string templateName \<or> \<not> is_function (obj_highlight templ) \<or>
           \<not> is_boolean (obj_preElementStyled templ) \<or> \<not> is_boolean (obj_isCode templ) \<or>
           \<not> is_boolean (obj_includeCodeInputInHighlightFunc templ) \<or>
           \<not> isArray (obj_plugins templ) \<or>
           (\<exists>ps. obj_plugins templ = JArr ps \<and> (\<exists>p \<in> set ps. \<not> is_Plugin p))"
  shows "registerTemplate templateName templ w = (Throw TypeError, w)"
proof -
  have "(\<exists>ps. obj_plugins templ = JArr ps \<and> (\<exists>p \<in> set ps. \<not> is_Plugin p))
          \<Longrightarrow> \<not> plugins_valid (obj_plugins templ)"
    by (auto simp: plugins_valid_def list_all_iff)
  with assms show ?thesis
    by (auto simp: registerTemplate_def)
qed

theorem registerTemplate_rejects_witness:
  "(\<exists>ps. obj_plugins (plain_template\<lparr>obj_plugins := JArr [JPlugin 1, JObject 2]\<rparr>) = JArr ps \<and>
         (\<exists>p \<in> set ps. \<not> is_Plugin p)) \<and>
   registerTemplate (JStr ''a'') (plain_template\<lparr>obj_plugins := JArr [JPlugin 1, JObject 2]\<rparr>)
     page_connected = (Throw TypeError, page_connected)"
proof -
  have h: "\<exists>ps. obj_plugins (plain_template\<lparr>obj_plugins := JArr [JPlugin 1, JObject 2]\<rparr>) = JArr ps \<and>
         (\<exists>p \<in> set ps. \<not> is_Plugin p)"
    by simp
  then show ?thesis
    using registerTemplate_rejects
      [of "JStr ''a''" "plain_template\<lparr>obj_plugins := JArr [JPlugin 1, JObject 2]\<rparr>" page_connected]
    by blast
qed

section \<open>Setup\<close>

lemma then_do_Normal:
  "returns f s a s' \<Longrightarrow> then_do f g s = g a s'"
  by (simp add: then_do_def returns_def)

lemma attached_append [simp]: "attached (xs @ ys) = attached xs @ attached ys"
  by (simp add: attached_def)

lemma attached_Nil [simp]: "attached [] = []"
  by (simp add: attached_def)

lemma attached_hooks [simp]: "attached (map (\<lambda>p. HookCall p n x args) ps) = []"
  by (induction ps) (simp_all add: attached_def)

lemma attached_simps [simp]:
  "attached (HookCall p n x args # evs) = attached evs"
  "attached (HighlightCall f c a # evs) = attached evs"
  "attached (ListenerCall l ty # evs) = attached evs"
  "attached (RequestAnimationFrame i # evs) = attached evs"
  "attached (DispatchEvent i ty # evs) = attached evs"
  "attached (ResizeObserve i # evs) = attached evs"
  "attached (Disconnect i # evs) = attached evs"
  "attached (Observe i # evs) = i # attached evs"
  by (simp_all add: attached_def)

text \<open>What the callbacks of an element leave as it is.\<close>

definition undisturbed :: "istate \<Rightarrow> istate \<Rightarrow> bool" where
  "undisturbed s s' \<longleftrightarrow>
     template (fst s') = template (fst s) \<and> attributes (fst s') = attributes (fst s) \<and>
     fallbackTextarea (fst s') = fallbackTextarea (fst s) \<and>
     iid (fst s') = iid (fst s) \<and>
     (codeElement (fst s) \<noteq> None \<longrightarrow> codeElement (fst s') \<noteq> None) \<and>
     (preElement (fst s) \<noteq> None \<longrightarrow> preElement (fst s') \<noteq> None) \<and>
     (textareaElement (fst s) \<noteq> None \<longrightarrow> textareaElement (fst s') \<noteq> None) \<and>
     attached (snd s') = attached (snd s)"

lemma undisturbed_refl [simp]: "undisturbed s s"
  by (simp add: undisturbed_def)

lemma undisturbed_trans: "undisturbed s s' \<Longrightarrow> undisturbed s' s'' \<Longrightarrow> undisturbed s s''"
  by (simp add: undisturbed_def)

lemma run_listener_undisturbed: "undisturbed s (run_listener ty l s)"
  by (cases l; cases s)
     (auto simp: undisturbed_def dom_addEventListener_def dom_removeEventListener_def Let_def
           split: option.splits)

lemma run_callback_undisturbed: "undisturbed s (run_callback ty cb s)"
proof (cases cb)
  case (Bound n l)
  then show ?thesis by (simp add: run_listener_undisturbed)
next
  case Blur
  then show ?thesis by (cases s) (simp add: undisturbed_def)
next
  case Input
  then show ?thesis
    by (cases s) (auto simp: undisturbed_def set_value_def scheduleHighlight_def split: option.splits)
qed

lemma dispatch_fold_undisturbed:
  "undisturbed s
     (foldl (\<lambda>s (ty', cb, capture). if ty' = ty then run_callback ty cb s else s) s ls)"
proof (induction ls arbitrary: s)
  case Nil
  then show ?case by simp
next
  case (Cons entry ls)
  obtain ty' cb capture where e: "entry = (ty', cb, capture)"
    by (cases entry) auto
  have "undisturbed s (if ty' = ty then run_callback ty cb s else s)"
    by (simp add: run_callback_undisturbed)
  then show ?case
    using Cons.IH [of "if ty' = ty then run_callback ty cb s else s"] e
    by (auto intro: undisturbed_trans)
qed

lemma dispatchEvent_undisturbed:
  "\<exists>s'. dispatchEvent ty s = (Normal (), s') \<and> undisturbed s s'"
proof -
  obtain x tr where s: "s = (x, tr)"
    by (cases s) auto
  have "undisturbed (x, tr) (x, tr @ [DispatchEvent (iid x) ty])"
    by (simp add: undisturbed_def)
  then show ?thesis
    using dispatch_fold_undisturbed [of "(x, tr @ [DispatchEvent (iid x) ty])" ty
        "filter (\<lambda>(ty', cb, capture). capture) (listeners x) @
         filter (\<lambda>(ty', cb, capture). \<not> capture) (listeners x)"] s
    by (auto simp: dispatchEvent_def simp del: foldl_append intro: undisturbed_trans)
qed

lemma set_value_undisturbed:
  assumes "textareaElement (fst s) \<noteq> None"
  shows "\<exists>s'. set_value val s = (Normal (), s') \<and> undisturbed s s' \<and> needsHighlight (fst s')"
  using assms
  by (cases s) (auto simp: set_value_def scheduleHighlight_def undisturbed_def)

lemma update_undisturbed:
  assumes "set_up (fst s)"
  shows "\<exists>s'. update s = (Normal (), s') \<and> undisturbed s s'"
proof -
  obtain x tr where s: "s = (x, tr)"
    by (cases s) auto
  from assms s obtain t ta code pre where h: "template x = Some t" "textareaElement x = Some ta"
    "codeElement x = Some code" "preElement x = Some pre"
    by (auto simp: set_up_def)
  show ?thesis
    using update_result [OF h, of tr] h s
    by (auto simp: Let_def undisturbed_def)
qed

lemma animateFrame_undisturbed:
  assumes "set_up (fst s)"
  shows "\<exists>s'. animateFrame s = (Normal (), s') \<and> undisturbed s s'"
proof -
  obtain x tr where s: "s = (x, tr)"
    by (cases s) auto
  show ?thesis
  proof (cases "needsHighlight x")
    case True
    from update_undisturbed [OF assms] obtain x1 tr1
      where u: "update (x, tr) = (Normal (), (x1, tr1))" "undisturbed (x, tr) (x1, tr1)"
      using s by auto
    have "animateFrame (x, tr) =
            (Normal (), (x1\<lparr>needsHighlight := False\<rparr>, tr1 @ [RequestAnimationFrame (iid x1)]))"
      using True u(1) by (simp add: animateFrame_def then_do_def modify_def emit_def)
    with u(2) s show ?thesis
      by (simp add: undisturbed_def)
  next
    case False
    then show ?thesis
      using s by (simp add: animateFrame_def then_do_def emit_def undisturbed_def)
  qed
qed

lemma map_of_sync_fold:
  "map_of (foldl (\<lambda>as (attr, v). if map_of as attr \<noteq> None then as else AList.update attr v as)
             as0 fbs) k =
     (case map_of as0 k of Some v \<Rightarrow> Some v | None \<Rightarrow> map_of fbs k)"
proof (induction fbs arbitrary: as0)
  case Nil
  then show ?case by (simp split: option.splits)
next
  case (Cons e fbs)
  obtain attr v where e: "e = (attr, v)"
    by (cases e) auto
  show ?case
    using Cons.IH [of "if map_of as0 attr \<noteq> None then as0 else AList.update attr v as0"] e
    by (auto simp: update_conv' split: option.splits)
qed

lemma sync_fallback_attributes_eq:
  "sync_fallback_attributes fb x =
     x\<lparr>attributes :=
         foldl (\<lambda>as (attr, v). if map_of as attr \<noteq> None then as else AList.update attr v as)
           (attributes x) (attributes fb)\<rparr>"
proof -
  have "foldl (\<lambda>x (attr, v).
              if hasAttribute (attributes x) attr then x
              else x\<lparr>attributes := setAttribute (attributes x) attr v\<rparr>) x fbs =
        x\<lparr>attributes :=
           foldl (\<lambda>as (attr, v). if map_of as attr \<noteq> None then as else AList.update attr v as)
             (attributes x) fbs\<rparr>" for fbs
  proof (induction fbs arbitrary: x)
    case Nil
    then show ?case by simp
  next
    case (Cons e fbs)
    obtain attr v where e: "e = (attr, v)"
      by (cases e) auto
    show ?case
      using Cons.IH [of "if hasAttribute (attributes x) attr then x
                         else x\<lparr>attributes := setAttribute (attributes x) attr v\<rparr>"] e
      by (auto simp: hasAttribute_def setAttribute_def)
  qed
  then show ?thesis
    by (simp add: sync_fallback_attributes_def)
qed

lemma sync_fallback_attributes_fields [simp]:
  "template (sync_fallback_attributes fb x) = template x"
  "iid (sync_fallback_attributes fb x) = iid x"
  "allocated (sync_fallback_attributes fb x) = allocated x"
  "innerHTML (sync_fallback_attributes fb x) = innerHTML x"
  by (simp_all add: sync_fallback_attributes_eq)

lemma getAttribute_sync_fallback_attributes:
  "getAttribute (attributes (sync_fallback_attributes fb x)) k =
     (case getAttribute (attributes x) k of
        Some v \<Rightarrow> Some v
      | None \<Rightarrow> getAttribute (attributes fb) k)"
  unfolding sync_fallback_attributes_eq getAttribute_def
  using map_of_sync_fold [of "attributes x" "attributes fb" k]
  by simp

lemma getAttribute_setAttribute:
  "getAttribute (setAttribute as k v) k' = (if k' = k then Some v else getAttribute as k')"
  by (simp add: getAttribute_def setAttribute_def update_conv')

lemma dom_addEventListener_fields [simp]:
  "template (dom_addEventListener ty cb opts x) = template x"
  "iid (dom_addEventListener ty cb opts x) = iid x"
  "attributes (dom_addEventListener ty cb opts x) = attributes x"
  "fallbackTextarea (dom_addEventListener ty cb opts x) = fallbackTextarea x"
  by (simp_all add: dom_addEventListener_def Let_def)

lemma setup_textarea_result:
  "\<exists>v lang x'. setup_textarea (x, tr) = (Normal (v, lang), (x', tr)) \<and>
     template x' = template x \<and> iid x' = iid x \<and> textareaElement x' \<noteq> None \<and>
     fallbackTextarea x' = None \<and>
     getAttribute (attributes x') ''template'' = template_attribute_after x"
proof -
  define x1 where "x1 = (case fallbackTextarea x of
                 None \<Rightarrow> x
               | Some fb \<Rightarrow> sync_fallback_attributes fb x)"
  have f1: "template x1 = template x" "iid x1 = iid x"
    "getAttribute (attributes x1) ''template'' = template_attribute_after x"
    by (simp_all add: x1_def template_attribute_after_def getAttribute_sync_fallback_attributes
        split: option.splits)
  show ?thesis
    unfolding setup_textarea_def
    by (simp add: Let_def x1_def [symmetric] addEventListener.simps textareaSyncEvents_def
        getAttribute_setAttribute f1)
qed

lemma setup_result_result:
  assumes "template x = Some t"
  shows "\<exists>x'. setup_result lang (x, tr) = (Normal (), (x', tr)) \<and>
     template x' = template x \<and> iid x' = iid x \<and> attributes x' = attributes x \<and>
     fallbackTextarea x' = fallbackTextarea x \<and> textareaElement x' = textareaElement x \<and>
     codeElement x' \<noteq> None \<and> preElement x' \<noteq> None"
  using assms by (simp add: setup_result_def Let_def)

lemma do_setup_fresh:
  assumes "template x = Some t" and "textareaElement x = None"
  shows "\<exists>x' tr'. do_setup (x, tr) = (Normal (), (x', tr')) \<and> attached tr' = attached tr \<and>
     template x' = Some t \<and> iid x' = iid x \<and> textareaElement x' \<noteq> None \<and>
     fallbackTextarea x' = None \<and>
     getAttribute (attributes x') ''template'' = template_attribute_after x"
proof -
  define x1 where "x1 = x\<lparr>classList := classList_add (classList x) ''code-input_registered''\<rparr>"
  define x2 where "x2 = (if preElementStyled t
      then x1\<lparr>classList := classList_add (classList x1) ''code-input_pre-element-styled''\<rparr>
      else x1)"
  define tr2 where "tr2 = tr @ map (\<lambda>p. HookCall p ''beforeElementsAdded'' x2 []) (plugins t)"
  have t2: "template x2 = Some t" and i2: "iid x2 = iid x"
    and f2: "attributes x2 = attributes x" "fallbackTextarea x2 = fallbackTextarea x"
    using assms(1) by (simp_all add: x1_def x2_def)
  have ta2: "template_attribute_after x2 = template_attribute_after x"
    unfolding template_attribute_after_def f2 ..
  from setup_textarea_result [of x2 tr2] obtain v lang x3
    where s3: "setup_textarea (x2, tr2) = (Normal (v, lang), (x3, tr2))"
      and p3: "template x3 = template x2" "iid x3 = iid x2" "textareaElement x3 \<noteq> None"
        "fallbackTextarea x3 = None"
        "getAttribute (attributes x3) ''template'' = template_attribute_after x2"
    by blast
  from setup_result_result [of x3 t lang tr2] p3(1) t2 obtain x4
    where s4: "setup_result lang (x3, tr2) = (Normal (), (x4, tr2))"
      and p4: "template x4 = template x3" "iid x4 = iid x3" "attributes x4 = attributes x3"
        "fallbackTextarea x4 = fallbackTextarea x3" "textareaElement x4 = textareaElement x3"
        "codeElement x4 \<noteq> None" "preElement x4 \<noteq> None"
    by auto
  define tr4 where "tr4 = tr2 @ map (\<lambda>p. HookCall p ''afterElementsAdded'' x4 []) (plugins t)"
  have t4: "template x4 = Some t"
    using p4(1) p3(1) t2 by simp
  from dispatchEvent_undisturbed [of "''code-input_load''" "(x4, tr4)"] obtain s5
    where s5: "dispatchEvent ''code-input_load'' (x4, tr4) = (Normal (), s5)"
      and u5: "undisturbed (x4, tr4) s5"
    by blast
  have "textareaElement (fst s5) \<noteq> None"
    using u5 p4(5) p3(3) by (simp add: undisturbed_def)
  from set_value_undisturbed [OF this, of "Text v"] obtain s6
    where s6: "set_value (Text v) s5 = (Normal (), s6)" and u6: "undisturbed s5 s6"
    by blast
  have u46: "undisturbed (x4, tr4) s6"
    using u5 u6 by (rule undisturbed_trans)
  then have "set_up (fst s6)"
    using t4 p4 p3(3) by (simp add: undisturbed_def set_up_def)
  from animateFrame_undisturbed [OF this] obtain s7
    where s7: "animateFrame s6 = (Normal (), s7)" and u7: "undisturbed s6 s7"
    by blast
  have u47: "undisturbed (x4, tr4) s7"
    using u46 u7 by (rule undisturbed_trans)
  obtain x7 tr7 where e7: "s7 = (x7, tr7)"
    by (cases s7) auto
  have a1: "returns (modify (\<lambda>x. x\<lparr>classList := classList_add (classList x) ''code-input_registered''\<rparr>))
              (x, tr) () (x1, tr)"
    by (simp add: returns_def modify_def x1_def)
  have a2: "returns setup_styled_class (x1, tr) () (x2, tr)"
    using assms(1) by (simp add: returns_def setup_styled_class_def x2_def x1_def)
  have a3: "returns (pluginEvt ''beforeElementsAdded'' []) (x2, tr) () (x2, tr2)"
    using t2 by (simp add: returns_def pluginEvt_def tr2_def)
  have a4: "returns setup_textarea (x2, tr2) (v, lang) (x3, tr2)"
    "returns (setup_result lang) (x3, tr2) () (x4, tr2)"
    using s3 s4 by (simp_all add: returns_def)
  have a5: "returns (pluginEvt ''afterElementsAdded'' []) (x4, tr2) () (x4, tr4)"
    using t4 by (simp add: returns_def pluginEvt_def tr4_def)
  have a6: "returns (dispatchEvent ''code-input_load'') (x4, tr4) () s5"
    "returns (set_value (Text v)) s5 () s6" "returns animateFrame s6 () s7"
    using s5 s6 s7 by (simp_all add: returns_def)
  have a8: "emit (\<lambda>x. ResizeObserve (iid x)) s7 = (Normal (), (x7, tr7 @ [ResizeObserve (iid x7)]))"
    using e7 by (simp add: emit_def)
  have "do_setup (x, tr) = (Normal (), (x7, tr7 @ [ResizeObserve (iid x7)]))"
    using assms(2)
    by (simp add: do_setup_def then_do_Normal [OF a1] then_do_Normal [OF a2]
        then_do_Normal [OF a3] then_do_Normal [OF a4(1)] then_do_Normal [OF a4(2)]
        then_do_Normal [OF a5] then_do_Normal [OF a6(1)] then_do_Normal [OF a6(2)]
        then_do_Normal [OF a6(3)] a8)
  moreover have "attached tr7 = attached tr"
    using u47 e7 by (simp add: undisturbed_def tr4_def tr2_def)
  moreover have "template x7 = Some t" "iid x7 = iid x" "textareaElement x7 \<noteq> None"
    "fallbackTextarea x7 = None"
    "getAttribute (attributes x7) ''template'' = template_attribute_after x"
    using u47 e7 t4 p4 p3 i2 ta2 by (simp_all add: undisturbed_def)
  ultimately show ?thesis
    by simp
qed

lemma do_setup_done:
  assumes "textareaElement x \<noteq> None"
  shows "do_setup (x, tr) = (Normal (), (x, tr))"
  using assms by (simp add: do_setup_def)

section \<open>Attaching an element\<close>

lemma attach_resolved:
  fixes x :: CodeInput and t :: template
  defines "x0 \<equiv> x\<lparr>template := Some t\<rparr>"
  shows "\<exists>x' tr'.
     then_do (modify (\<lambda>x. x\<lparr>classList := classList_add (classList x) ''code-input_registered''\<rparr>))
       (\<lambda>_. then_do do_setup
       (\<lambda>_. modify (\<lambda>x. x\<lparr>classList := classList_add (classList x) ''code-input_loaded''\<rparr>)))
       (x0, tr) = (Normal (), (x', tr')) \<and>
     attached tr' = attached tr \<and> template x' = Some t \<and> textareaElement x' \<noteq> None \<and>
     (\<forall>n. asks x n \<longrightarrow> asks x' n) \<and> (asks_default x \<longrightarrow> asks_default x')"
proof -
  define x1 where "x1 = x0\<lparr>classList := classList_add (classList x0) ''code-input_registered''\<rparr>"
  have a1: "returns (modify (\<lambda>x. x\<lparr>classList := classList_add (classList x) ''code-input_registered''\<rparr>))
              (x0, tr) () (x1, tr)"
    by (simp add: returns_def modify_def x1_def)
  have f1: "template x1 = Some t" "attributes x1 = attributes x"
    "fallbackTextarea x1 = fallbackTextarea x" "textareaElement x1 = textareaElement x"
    by (simp_all add: x1_def x0_def)
  have ta1: "template_attribute_after x1 = template_attribute_after x"
    unfolding template_attribute_after_def f1 ..
  have "\<exists>x2 tr2. do_setup (x1, tr) = (Normal (), (x2, tr2)) \<and> attached tr2 = attached tr \<and>
          template x2 = Some t \<and> textareaElement x2 \<noteq> None \<and>
          (\<forall>n. asks x n \<longrightarrow> asks x2 n) \<and> (asks_default x \<longrightarrow> asks_default x2)"
  proof (cases "textareaElement x1")
    case None
    from do_setup_fresh [OF f1(1) None, of tr] obtain x2 tr2
      where d: "do_setup (x1, tr) = (Normal (), (x2, tr2))" "attached tr2 = attached tr"
        "template x2 = Some t" "textareaElement x2 \<noteq> None" "fallbackTextarea x2 = None"
        "getAttribute (attributes x2) ''template'' = template_attribute_after x"
      using ta1 by auto
    have "asks x n \<Longrightarrow> asks x2 n" for n
      using d(6) by (simp add: asks_def template_attribute_after_def)
    moreover have "asks_default x \<Longrightarrow> asks_default x2"
      using d(5,6) by (auto simp: asks_default_def template_attribute_after_def split: option.splits)
    ultimately show ?thesis
      using d by blast
  next
    case (Some ta)
    then have "do_setup (x1, tr) = (Normal (), (x1, tr))"
      by (simp add: do_setup_done)
    moreover have "asks x n \<Longrightarrow> asks x1 n" for n
      by (simp add: asks_def f1)
    moreover have "asks_default x \<Longrightarrow> asks_default x1"
      by (simp add: asks_default_def f1)
    moreover have "textareaElement x1 \<noteq> None"
      using Some by simp
    ultimately show ?thesis
      using f1(1) by blast
  qed
  then obtain x2 tr2 where d: "do_setup (x1, tr) = (Normal (), (x2, tr2))"
    "attached tr2 = attached tr" "template x2 = Some t" "textareaElement x2 \<noteq> None"
    "\<forall>n. asks x n \<longrightarrow> asks x2 n" "asks_default x \<longrightarrow> asks_default x2"
    by blast
  have a2: "returns do_setup (x1, tr) () (x2, tr2)"
    using d(1) by (simp add: returns_def)
  have "asks x n \<Longrightarrow> asks (x2\<lparr>classList := classList_add (classList x2) ''code-input_loaded''\<rparr>) n" for n
    using d(5) by (simp add: asks_def)
  moreover have "asks_default x \<Longrightarrow>
      asks_default (x2\<lparr>classList := classList_add (classList x2) ''code-input_loaded''\<rparr>)"
    using d(6) by (simp add: asks_default_def)
  ultimately show ?thesis
    unfolding then_do_Normal [OF a1] then_do_Normal [OF a2]
    using d(2,3,4) by (simp add: modify_def)
qed

lemma connectedCallback_result:
  "\<exists>w'. connectedCallback i w = (Normal (), w') \<and>
     usedTemplates w' = usedTemplates w \<and> defaultTemplate w' = defaultTemplate w \<and>
     observedAttributes w' = observedAttributes w \<and>
     (\<forall>j. j \<noteq> i \<longrightarrow> instances w' j = instances w j) \<and>
     attached (trace w') = attached (trace w) @ [i] \<and>
     templateNotYetRegisteredQueue w' =
       (if usedTemplates w (requested_key w i) = None
        then (templateNotYetRegisteredQueue w)
               (requested_key w i \<mapsto> queued w (requested_key w i) @ [i])
        else templateNotYetRegisteredQueue w) \<and>
     template (instances w' i) = usedTemplates w (requested_key w i) \<and>
     (usedTemplates w (requested_key w i) \<noteq> None \<longrightarrow> textareaElement (instances w' i) \<noteq> None) \<and>
     (\<forall>n. asks (instances w i) n \<longrightarrow> asks (instances w' i) n) \<and>
     (asks_default (instances w i) \<longrightarrow> asks_default (instances w' i))"
proof (cases "usedTemplates w (requested_key w i)")
  case None
  then show ?thesis
    by (simp add: connectedCallback_def getTemplate_def requested_key_def Let_def then_do_def
        on_instance_def asks_def asks_default_def)
next
  case (Some t)
  from attach_resolved [of t "instances w i" "trace w"] obtain x' tr'
    where a: "then_do (modify (\<lambda>x. x\<lparr>classList := classList_add (classList x) ''code-input_registered''\<rparr>))
       (\<lambda>_. then_do do_setup
       (\<lambda>_. modify (\<lambda>x. x\<lparr>classList := classList_add (classList x) ''code-input_loaded''\<rparr>)))
       ((instances w i)\<lparr>template := Some t\<rparr>, trace w) = (Normal (), (x', tr'))"
      and p: "attached tr' = attached (trace w)" "template x' = Some t" "textareaElement x' \<noteq> None"
        "\<forall>n. asks (instances w i) n \<longrightarrow> asks x' n"
        "asks_default (instances w i) \<longrightarrow> asks_default x'"
    by blast
  have q: "asks x' n \<Longrightarrow> asks (x'\<lparr>mutationObserver := Some True, observers := Suc (observers x')\<rparr>) n"
    "asks_default x' \<Longrightarrow>
       asks_default (x'\<lparr>mutationObserver := Some True, observers := Suc (observers x')\<rparr>)" for n
    by (simp_all add: asks_def asks_default_def)
  show ?thesis
    using Some a p q
    by (simp add: connectedCallback_def getTemplate_def requested_key_def [symmetric] Let_def
        then_do_def on_instance_def)
qed

lemma resolves_to_requested_key:
  assumes "resolves_to w j t"
  shows "usedTemplates w (requested_key w j) = Some t"
  using assms
  by (auto simp: resolves_to_def asks_def asks_default_def requested_key_def property_name_def)

lemma resolves_to_stable:
  assumes "attach_effect q w w'" and "resolves_to w j t"
  shows "resolves_to w' j t"
  using assms unfolding attach_effect_def resolves_to_def
  by metis

lemma attach_effect_step:
  assumes "connectedCallback i
             (w\<lparr>instances := (instances w)(i := (instances w i)\<lparr>template := Some t\<rparr>)\<rparr>) = (r, w')"
  shows "r = Normal () \<and> attach_effect [i] w w'"
proof -
  define w0 where "w0 = w\<lparr>instances := (instances w)(i := (instances w i)\<lparr>template := Some t\<rparr>)\<rparr>"
  have k: "requested_key w0 i = requested_key w i"
    by (simp add: w0_def requested_key_def split: option.splits)
  have s0: "asks (instances w0 j) n = asks (instances w j) n"
    "asks_default (instances w0 j) = asks_default (instances w j)" for j n
    by (simp_all add: w0_def asks_def asks_default_def)
  have u0: "usedTemplates w0 = usedTemplates w" "defaultTemplate w0 = defaultTemplate w"
    "observedAttributes w0 = observedAttributes w" "trace w0 = trace w"
    by (simp_all add: w0_def)
  have r0: "resolves_to w0 j t' = resolves_to w j t'" for j t'
    unfolding resolves_to_def s0 u0 ..
  from connectedCallback_result [of i w0] assms obtain
    c: "r = Normal ()" "usedTemplates w' = usedTemplates w0" "defaultTemplate w' = defaultTemplate w0"
      "observedAttributes w' = observedAttributes w0"
      "\<forall>j. j \<noteq> i \<longrightarrow> instances w' j = instances w0 j"
      "attached (trace w') = attached (trace w0) @ [i]"
      "templateNotYetRegisteredQueue w' =
         (if usedTemplates w0 (requested_key w0 i) = None
          then (templateNotYetRegisteredQueue w0)
                 (requested_key w0 i \<mapsto> queued w0 (requested_key w0 i) @ [i])
          else templateNotYetRegisteredQueue w0)"
      "template (instances w' i) = usedTemplates w0 (requested_key w0 i)"
      "usedTemplates w0 (requested_key w0 i) \<noteq> None \<longrightarrow> textareaElement (instances w' i) \<noteq> None"
      "\<forall>n. asks (instances w0 i) n \<longrightarrow> asks (instances w' i) n"
      "asks_default (instances w0 i) \<longrightarrow> asks_default (instances w' i)"
    unfolding w0_def [symmetric] by auto
  have e1: "usedTemplates w' = usedTemplates w" "defaultTemplate w' = defaultTemplate w"
    "observedAttributes w' = observedAttributes w"
    using c(2,3,4) u0 by simp_all
  have e2: "j \<notin> set [i] \<Longrightarrow> instances w' j = instances w j" for j
    using c(5) by (simp add: w0_def)
  have e3: "attached (trace w') = attached (trace w) @ [i]"
    using c(6) u0 by simp
  have tq: "templateNotYetRegisteredQueue w0 = templateNotYetRegisteredQueue w"
    by (simp add: w0_def)
  have e4: "\<exists>extra. queued w' k = queued w k @ extra \<and> set extra \<subseteq> set [i]" for k
  proof (cases "usedTemplates w0 (requested_key w0 i) = None \<and> k = requested_key w0 i")
    case True
    then have "queued w' k = queued w k @ [i]"
      unfolding queued_def c(7) tq by simp
    then show ?thesis
      by (intro exI [of _ "[i]"]) simp
  next
    case False
    then have "queued w' k = queued w k @ []"
      unfolding queued_def c(7) tq by (cases "usedTemplates w0 (requested_key w0 i) = None") simp_all
    then show ?thesis
      by (intro exI [of _ "[]"]) simp
  qed
  have e5: "asks (instances w j) n \<Longrightarrow> asks (instances w' j) n" for j n
    using c(5,10) s0 by (cases "j = i") auto
  have e6: "asks_default (instances w j) \<Longrightarrow> asks_default (instances w' j)" for j
    using c(5,11) s0 by (cases "j = i") auto
  have e7: "settled t' (instances w' j)"
    if "resolves_to w j t'" and "j \<in> set [i] \<or> settled t' (instances w j)" for j t'
  proof (cases "j = i")
    case True
    from that(1) have "usedTemplates w0 (requested_key w0 i) = Some t'"
      using resolves_to_requested_key [of w0 i t'] r0 True by simp
    then show ?thesis
      using c(8,9) True by (simp add: settled_def)
  next
    case False
    then show ?thesis
      using that(2) c(5) by (simp add: w0_def)
  qed
  have "attach_effect [i] w w'"
    unfolding attach_effect_def
  proof (intro conjI allI impI)
    show "usedTemplates w' = usedTemplates w" "defaultTemplate w' = defaultTemplate w"
      "observedAttributes w' = observedAttributes w"
      by (fact e1)+
    show "attached (trace w') = attached (trace w) @ [i]"
      by (fact e3)
  next
    fix j assume "j \<notin> set [i]"
    then show "instances w' j = instances w j"
      by (rule e2)
  next
    fix k show "\<exists>extra. queued w' k = queued w k @ extra \<and> set extra \<subseteq> set [i]"
      by (rule e4)
  next
    fix j n assume "asks (instances w j) n"
    then show "asks (instances w' j) n"
      by (rule e5)
  next
    fix j assume "asks_default (instances w j)"
    then show "asks_default (instances w' j)"
      by (rule e6)
  next
    fix j t'
    assume a: "resolves_to w j t' \<and> (j \<in> set [i] \<or> settled t' (instances w j))"
    show "settled t' (instances w' j)"
      by (rule e7) (use a in simp_all)
  qed
  with c(1) show ?thesis
    by simp
qed

lemma attach_effect_trans:
  assumes "attach_effect q1 w w1" and "attach_effect q2 w1 w2"
  shows "attach_effect (q1 @ q2) w w2"
proof -
  note a = assms(1) [unfolded attach_effect_def]
  note b = assms(2) [unfolded attach_effect_def]
  have e4: "\<exists>extra. queued w2 k = queued w k @ extra \<and> set extra \<subseteq> set (q1 @ q2)" for k
  proof -
    from a obtain x1 where x1: "queued w1 k = queued w k @ x1" "set x1 \<subseteq> set q1"
      by blast
    from b obtain x2 where x2: "queued w2 k = queued w1 k @ x2" "set x2 \<subseteq> set q2"
      by blast
    show ?thesis
      using x1 x2 by (intro exI [of _ "x1 @ x2"]) auto
  qed
  have e7: "settled t (instances w2 j)"
    if r: "resolves_to w j t" and s: "j \<in> set (q1 @ q2) \<or> settled t (instances w j)" for j t
  proof -
    have r1: "resolves_to w1 j t"
      using assms(1) r by (rule resolves_to_stable)
    show ?thesis
    proof (cases "j \<in> set q2")
      case True
      then show ?thesis
        using b r1 by blast
    next
      case False
      with s have "j \<in> set q1 \<or> settled t (instances w j)"
        by auto
      then have "settled t (instances w1 j)"
        using a r by blast
      then show ?thesis
        using b r1 by blast
    qed
  qed
  show ?thesis
    unfolding attach_effect_def
  proof (intro conjI allI impI)
    show "usedTemplates w2 = usedTemplates w" "defaultTemplate w2 = defaultTemplate w"
      "observedAttributes w2 = observedAttributes w"
      using a b by simp_all
    show "attached (trace w2) = attached (trace w) @ q1 @ q2"
      using a b by simp
  next
    fix j assume "j \<notin> set (q1 @ q2)"
    then show "instances w2 j = instances w j"
      using a b by simp
  next
    fix k show "\<exists>extra. queued w2 k = queued w k @ extra \<and> set extra \<subseteq> set (q1 @ q2)"
      by (rule e4)
  next
    fix j n assume "asks (instances w j) n"
    then show "asks (instances w2 j) n"
      using a b by blast
  next
    fix j assume "asks_default (instances w j)"
    then show "asks_default (instances w2 j)"
      using a b by blast
  next
    fix j t
    assume "resolves_to w j t \<and> (j \<in> set (q1 @ q2) \<or> settled t (instances w j))"
    then show "settled t (instances w2 j)"
      using e7 by blast
  qed
qed

lemma attach_effect_Nil: "attach_effect [] w w"
  unfolding attach_effect_def by simp

lemma attach_queued_result:
  "\<exists>w'. attach_queued t q w = (Normal (), w') \<and> attach_effect q w w'"
proof (induction q arbitrary: w)
  case Nil
  then show ?case
    by (simp add: attach_effect_Nil)
next
  case (Cons i rest)
  define w0 where "w0 = w\<lparr>instances := (instances w)(i := (instances w i)\<lparr>template := Some t\<rparr>)\<rparr>"
  obtain r w1 where c: "connectedCallback i w0 = (r, w1)"
    by (cases "connectedCallback i w0") auto
  from attach_effect_step [OF c [unfolded w0_def]]
  have s: "r = Normal ()" "attach_effect [i] w w1"
    by simp_all
  from Cons.IH [of w1] obtain w2
    where i: "attach_queued t rest w1 = (Normal (), w2)" "attach_effect rest w1 w2"
    by blast
  have "attach_queued t (i # rest) w = (Normal (), w2)"
    using c s(1) i(1) by (simp add: then_do_def w0_def)
  moreover have "attach_effect (i # rest) w w2"
    using attach_effect_trans [OF s(2) i(2)] by simp
  ultimately show ?case
    by blast
qed

section \<open>Registering a template for queued elements\<close>

lemma registerTemplate_result:
  assumes "is_string templateName" and "is_function (obj_highlight templ)"
    and "is_boolean (obj_preElementStyled templ)" and "is_boolean (obj_isCode templ)"
    and "is_boolean (obj_includeCodeInputInHighlightFunc templ)"
    and "obj_plugins templ = JArr ps" and "\<forall>p \<in> set ps. is_Plugin p"
  shows "\<exists>w' again.
     registerTemplate templateName templ w = (Normal (), w') \<and>
     usedTemplates w' = (usedTemplates w)(name_key templateName \<mapsto> as_template templ) \<and>
     defaultTemplate w' =
       (if defaultTemplate w = None then Some (name_key templateName) else defaultTemplate w) \<and>
     attached (trace w') =
       attached (trace w) @ queued w (name_key templateName) @
       (if defaultTemplate w = None then queued w (property_name None) @ again else []) \<and>
     set again \<subseteq> set (queued w (name_key templateName)) \<and>
     (\<forall>k. \<exists>extra. queued w' k = queued w k @ extra) \<and>
     (\<forall>j. j \<notin> set (queued w (name_key templateName)) \<and>
          (defaultTemplate w = None \<longrightarrow> j \<notin> set (queued w (property_name None)))
          \<longrightarrow> instances w' j = instances w j) \<and>
     (\<forall>j \<in> set (queued w (name_key templateName)).
          asks (instances w j) (name_key templateName)
          \<longrightarrow> settled (as_template templ) (instances w' j)) \<and>
     (defaultTemplate w = None \<longrightarrow>
        (\<forall>j \<in> set (queued w (property_name None)).
           asks_default (instances w j) \<longrightarrow> settled (as_template templ) (instances w' j)))"
proof -
  define name where "name = name_key templateName"
  define t where "t = as_template templ"
  define w1 where "w1 = w\<lparr>usedTemplates := (usedTemplates w)(name \<mapsto> t)\<rparr>"
  define q1 where "q1 = queued w name"
  have valid: "plugins_valid (obj_plugins templ)" "isArray (obj_plugins templ)"
    using assms(6,7) by (simp_all add: plugins_valid_def list_all_iff)
  have f1: "queued w1 k = queued w k" "instances w1 = instances w" "trace w1 = trace w"
    "defaultTemplate w1 = defaultTemplate w" "usedTemplates w1 name = Some t" for k
    by (simp_all add: w1_def queued_def)
  from attach_queued_result [of t q1 w1] obtain w2
    where a1: "attach_queued t q1 w1 = (Normal (), w2)" and e1: "attach_effect q1 w1 w2"
    by blast
  note e1' = e1 [unfolded attach_effect_def]
  have u2: "usedTemplates w2 = usedTemplates w1" "defaultTemplate w2 = defaultTemplate w"
    using e1' f1(4) by simp_all
  have r0: "registerTemplate templateName templ w =
      (if defaultTemplate w2 = None
       then attach_queued t (queued (w2\<lparr>defaultTemplate := Some name\<rparr>) ''undefined'')
              (w2\<lparr>defaultTemplate := Some name\<rparr>)
       else (Normal (), w2))"
    using assms(1-5) valid a1
    by (simp add: registerTemplate_def Let_def then_do_def name_def [symmetric] t_def [symmetric]
        w1_def [symmetric] f1(1) q1_def [symmetric])
  have named: "settled t (instances w2 j)" "asks (instances w2 j) name"
    if "j \<in> set q1" and "asks (instances w j) name" for j
  proof -
    have "resolves_to w1 j t"
      using that(2) f1 by (auto simp: resolves_to_def)
    then show "settled t (instances w2 j)"
      using e1' that(1) by blast
    show "asks (instances w2 j) name"
      using e1' that(2) f1(2) by simp
  qed
  show ?thesis
  proof (cases "defaultTemplate w = None")
    case False
    then obtain d where d: "defaultTemplate w = Some d"
      by auto
    have "registerTemplate templateName templ w = (Normal (), w2)"
      using r0 u2 d by simp
    moreover have "usedTemplates w2 = (usedTemplates w)(name \<mapsto> t)"
      using u2 by (simp add: w1_def)
    moreover have "attached (trace w2) = attached (trace w) @ q1"
      using e1' f1 by simp
    moreover have "\<forall>j. j \<notin> set q1 \<longrightarrow> instances w2 j = instances w j"
      using e1' f1 by simp
    moreover have "\<forall>k. \<exists>extra. queued w2 k = queued w k @ extra"
      using e1' f1(1) by metis
    ultimately show ?thesis
      using d u2 named(1)
      unfolding name_def [symmetric] t_def [symmetric] q1_def [symmetric]
      by (intro exI [of _ w2] exI [of _ "[]"]) simp
  next
    case True
    define w3 where "w3 = w2\<lparr>defaultTemplate := Some name\<rparr>"
    from e1' obtain again
      where g: "queued w2 ''undefined'' = queued w1 ''undefined'' @ again" "set again \<subseteq> set q1"
      by blast
    define q2 where "q2 = queued w ''undefined'' @ again"
    have f3: "queued w3 ''undefined'' = q2" "instances w3 = instances w2" "trace w3 = trace w2"
      "usedTemplates w3 = usedTemplates w2" "defaultTemplate w3 = Some name"
      using g(1) f1(1) by (simp_all add: w3_def queued_def q2_def)
    from attach_queued_result [of t q2 w3] obtain w4
      where a2: "attach_queued t q2 w3 = (Normal (), w4)" and e2: "attach_effect q2 w3 w4"
      by blast
    note e2' = e2 [unfolded attach_effect_def]
    have r: "registerTemplate templateName templ w = (Normal (), w4)"
      using r0 u2 True a2 f3(1) by (simp add: w3_def [symmetric])
    have p1: "usedTemplates w4 = (usedTemplates w)(name \<mapsto> t)"
      using e2' f3 u2 by (simp add: w1_def)
    have p2: "defaultTemplate w4 = Some name"
      using e2' f3 by simp
    have p3: "attached (trace w4) = attached (trace w) @ q1 @ queued w ''undefined'' @ again"
      using e2' e1' f3 f1 by (simp add: q2_def)
    have p4: "instances w4 j = instances w j"
      if "j \<notin> set q1" and "j \<notin> set (queued w ''undefined'')" for j
    proof -
      have "j \<notin> set q2"
        using that g(2) by (auto simp: q2_def)
      then have "instances w4 j = instances w3 j"
        using e2' by blast
      then show ?thesis
        using e1' that(1) f3(2) f1(2) by simp
    qed
    have p5: "settled t (instances w4 j)" if "j \<in> set q1" and "asks (instances w j) name" for j
    proof -
      have "resolves_to w3 j t"
        using named(2) [OF that] f3 u2 f1(5) by (auto simp: resolves_to_def)
      moreover have "settled t (instances w3 j)"
        using named(1) [OF that] f3(2) by simp
      ultimately show ?thesis
        using e2' by blast
    qed
    have p6: "settled t (instances w4 j)"
      if "j \<in> set (queued w ''undefined'')" and "asks_default (instances w j)" for j
    proof -
      have "asks_default (instances w2 j)"
        using e1' that(2) f1(2) by simp
      then have "resolves_to w3 j t"
        using f3 u2 f1(5) by (auto simp: resolves_to_def)
      moreover have "j \<in> set q2"
        using that(1) by (simp add: q2_def)
      ultimately show ?thesis
        using e2' by blast
    qed
    have p7: "\<exists>extra. queued w4 k = queued w k @ extra" for k
    proof -
      from e1' obtain x1 where "queued w2 k = queued w1 k @ x1"
        by blast
      moreover from e2' obtain x2 where "queued w4 k = queued w3 k @ x2"
        by blast
      moreover have "queued w3 k = queued w2 k"
        by (simp add: w3_def queued_def)
      ultimately show ?thesis
        using f1(1) by (intro exI [of _ "x1 @ x2"]) simp
    qed
    show ?thesis
      using True r p1 p2 p3 g(2) p4 p5 p6 p7
      unfolding name_def [symmetric] t_def [symmetric] q1_def [symmetric]
      by (intro exI [of _ w4] exI [of _ again]) (simp add: property_name_def)
  qed
qed


section \<open>The example page\<close>

lemma connectedCallback_unresolved:
  assumes "usedTemplates w (requested_key w i) = None"
  shows "connectedCallback i w =
     (Normal (),
      w\<lparr>templateNotYetRegisteredQueue :=
          (templateNotYetRegisteredQueue w)
            (requested_key w i \<mapsto> queued w (requested_key w i) @ [i]),
        instances := (instances w)
          (i := (instances w i)\<lparr>template := None, mutationObserver := Some True,
                                 observers := Suc (observers (instances w i))\<rparr>),
        trace := trace w @ [Observe i]\<rparr>)"
  using assms
  by (simp add: connectedCallback_def getTemplate_def requested_key_def Let_def then_do_def
      on_instance_def)

lemma page_loaded_key: "requested_key page_loaded 0 = ''a''"
  by (simp add: requested_key_def page_loaded_def getAttribute_def property_name_def)

lemma page_connected_eq:
  "page_connected =
     page_loaded
       \<lparr>templateNotYetRegisteredQueue := [''a'' \<mapsto> [0]],
        instances := (instances page_loaded)
          (0 := (instances page_loaded 0)\<lparr>template := None, mutationObserver := Some True,
                                          observers := 1\<rparr>),
        trace := [Observe 0]\<rparr>"
proof -
  have "usedTemplates page_loaded (requested_key page_loaded 0) = None"
    by (simp add: page_loaded_def codeInput_initial_def)
  from connectedCallback_unresolved [OF this] show ?thesis
    by (simp add: page_connected_def page_loaded_key)
       (simp add: page_loaded_def codeInput_initial_def queued_def new_CodeInput_def)
qed

lemma page_connected_facts:
  "queued page_connected ''a'' = [0]" "queued page_connected ''undefined'' = []"
  "defaultTemplate page_connected = None" "asks (instances page_connected 0) ''a''"
  "usedTemplates page_connected = Map.empty"
  by (simp_all add: page_connected_eq queued_def page_loaded_def codeInput_initial_def asks_def
      getAttribute_def)

lemma page_moved_queue:
  "queued page_moved ''a'' = [0] \<and> queued page_moved ''b'' = [0]"
proof -
  define w where "w = page_connected\<lparr>instances := (instances page_connected)
          (0 := (instances page_connected 0)\<lparr>attributes := [(''template'', ''b'')]\<rparr>)\<rparr>"
  have k: "requested_key w 0 = ''b''"
    by (simp add: requested_key_def w_def getAttribute_def property_name_def)
  have u: "usedTemplates w ''b'' = None"
    by (simp add: w_def page_connected_facts)
  have q: "queued w ''a'' = [0]" "queued w ''b'' = []"
    by (simp_all add: w_def queued_def page_connected_eq)
  from connectedCallback_unresolved [of w 0] k u q show ?thesis
    by (simp add: page_moved_def w_def [symmetric] queued_def)
qed



section \<open>The queue of waiting elements\<close>

lemma getTemplate_result:
  "getTemplate i w =
     (usedTemplates w (requested_key w i),
      if usedTemplates w (requested_key w i) = None
      then w\<lparr>templateNotYetRegisteredQueue :=
               (templateNotYetRegisteredQueue w)
                 (requested_key w i \<mapsto> queued w (requested_key w i) @ [i])\<rparr>
      else w)"
  by (auto simp: getTemplate_def requested_key_def Let_def split: option.splits)

lemma registerTemplate_queue:
  "\<exists>extra. queued (snd (registerTemplate templateName templ w)) k = queued w k @ extra"
proof (cases "is_string templateName \<and> is_function (obj_highlight templ) \<and>
    is_boolean (obj_preElementStyled templ) \<and> is_boolean (obj_isCode templ) \<and>
    is_boolean (obj_includeCodeInputInHighlightFunc templ) \<and> isArray (obj_plugins templ) \<and>
    plugins_valid (obj_plugins templ)")
  case True
  then obtain ps where ps: "obj_plugins templ = JArr ps" "\<forall>p \<in> set ps. is_Plugin p"
    by (cases "obj_plugins templ") (auto simp: plugins_valid_def list_all_iff)
  from True have h: "is_string templateName" "is_function (obj_highlight templ)"
    "is_boolean (obj_preElementStyled templ)" "is_boolean (obj_isCode templ)"
    "is_boolean (obj_includeCodeInputInHighlightFunc templ)"
    by simp_all
  from registerTemplate_result [OF h ps, of w] obtain w'
    where "registerTemplate templateName templ w = (Normal (), w')"
      and "\<forall>k. \<exists>extra. queued w' k = queued w k @ extra"
    by blast
  then show ?thesis
    by simp
next
  case False
  then have "registerTemplate templateName templ w = (Throw TypeError, w)"
    by (auto simp: registerTemplate_def)
  then show ?thesis
    by simp
qed

text \<open>
  C1, as the code has it. When the Template of an element cannot be resolved,
  \<open>getTemplate\<close> appends the element to one bucket of the queue, the one of the name it
  asks for (or of the default name), and leaves the other buckets as they are; when it
  can be resolved the queue stays as it is. \<open>registerTemplate\<close> removes nothing from the
  queue: every bucket begins with its previous content afterwards.
\<close>

theorem queue_only_grows:
  "fst (getTemplate i w) = usedTemplates w (requested_key w i) \<and>
   (\<forall>k. queued (snd (getTemplate i w)) k =
         (if usedTemplates w (requested_key w i) = None \<and> k = requested_key w i
          then queued w k @ [i] else queued w k)) \<and>
   (\<forall>k. \<exists>extra. queued (snd (registerTemplate templateName templ w)) k = queued w k @ extra)"
  using registerTemplate_queue [of templateName templ w]
  by (simp add: getTemplate_result queued_def)

theorem queue_only_grows_witness:
  "fst (getTemplate 0 page_loaded) = None \<and>
   queued (snd (getTemplate 0 page_loaded)) ''a'' = [0] \<and>
   queued (snd (getTemplate 0 page_loaded)) ''b'' = [] \<and>
   (\<exists>extra. queued page_registered ''a'' = [0] @ extra)"
proof -
  note a = queue_only_grows [of 0 page_loaded "JStr ''a''" plain_template]
  note b = queue_only_grows [of 0 page_connected "JStr ''a''" plain_template]
  have u: "usedTemplates page_loaded ''a'' = None" and q0: "queued page_loaded k = []" for k
    by (simp_all add: page_loaded_def codeInput_initial_def queued_def)
  from a have 1: "fst (getTemplate 0 page_loaded) = None"
    by (simp add: page_loaded_key u)
  from a have "\<forall>k. queued (snd (getTemplate 0 page_loaded)) k =
         (if usedTemplates page_loaded (requested_key page_loaded 0) = None \<and>
             k = requested_key page_loaded 0
          then queued page_loaded k @ [0] else queued page_loaded k)"
    by (elim conjE)
  then have 2: "queued (snd (getTemplate 0 page_loaded)) ''a'' = [0]"
    "queued (snd (getTemplate 0 page_loaded)) ''b'' = []"
    by (simp_all add: page_loaded_key u q0)
  from b have "\<forall>k. \<exists>extra.
      queued (snd (registerTemplate (JStr ''a'') plain_template page_connected)) k =
      queued page_connected k @ extra"
    by (elim conjE)
  then have 3: "\<exists>extra. queued page_registered ''a'' = [0] @ extra"
    unfolding page_registered_def [symmetric] using page_connected_facts(1) by metis
  from 1 2 3 show ?thesis
    by blast
qed

text \<open>
  The claim C1 as it is stated fails. After the template \<open>a\<close> has been registered, the
  element that waited for it has the Template and is set up, and it is still in the bucket
  \<open>a\<close> of the queue. And an element that is attached again after its \<open>template\<close>
  attribute has changed is in two buckets.
\<close>

theorem resolved_element_stays_queued:
  "0 \<in> set (queued page_registered ''a'') \<and>
   settled (as_template plain_template) (instances page_registered 0) \<and>
   queued page_moved ''a'' = [0] \<and> queued page_moved ''b'' = [0]"
proof -
  have h: "is_string (JStr ''a'')" "is_function (obj_highlight plain_template)"
    "is_boolean (obj_preElementStyled plain_template)" "is_boolean (obj_isCode plain_template)"
    "is_boolean (obj_includeCodeInputInHighlightFunc plain_template)"
    "obj_plugins plain_template = JArr []" "\<forall>p \<in> set []. is_Plugin p"
    by (simp_all add: plain_template_def)
  from registerTemplate_result [OF h, of page_connected] obtain w'
    where r: "registerTemplate (JStr ''a'') plain_template page_connected = (Normal (), w')"
      and q: "\<forall>k. \<exists>extra. queued w' k = queued page_connected k @ extra"
      and s: "\<forall>j \<in> set (queued page_connected ''a'').
                asks (instances page_connected j) ''a''
                \<longrightarrow> settled (as_template plain_template) (instances w' j)"
    by auto
  have w': "page_registered = w'"
    using r by (simp add: page_registered_def)
  from q obtain extra where "queued w' ''a'' = [0] @ extra"
    using page_connected_facts(1) by metis
  then have "0 \<in> set (queued page_registered ''a'')"
    using w' by simp
  moreover have "settled (as_template plain_template) (instances page_registered 0)"
    using s w' page_connected_facts by simp
  ultimately show ?thesis
    using page_moved_queue by simp
qed

end
